theory Spec2Isabelle
  imports Main
begin

section \<open>The embedded agent run orchestrator\<close>

text \<open>
  A shallow embedding of \<^verbatim>\<open>runEmbeddedPiAgent\<close>
  (\<^verbatim>\<open>src/agents/pi-embedded-runner/run.ts\<close>) and of the frame of
  \<^verbatim>\<open>runEmbeddedAttempt\<close> (\<^verbatim>\<open>src/agents/pi-embedded-runner/run/attempt.ts\<close>).
  Asynchronous calls are run to completion in program order. Thrown values are results
  (\<open>Inl\<close>, \<open>Throw\<close>), the mutable locals of the run are a record that is passed along,
  and every call that reaches an external collaborator (credential store, attempt
  executor, process working directory) is appended to a trace. Helper functions that
  live in modules outside the orchestrator are fields of an environment record, so every
  theorem holds for all of their implementations. Logging and wall-clock durations are
  left out.
\<close>

subsection \<open>JavaScript values\<close>

text \<open>A thrown value, opaque to the orchestrator.\<close>

datatype js_error = JsError string

text \<open>Truthiness of an optional string: \<^verbatim>\<open>undefined\<close> and \<^verbatim>\<open>""\<close> are falsy.\<close>

definition truthy :: "string option \<Rightarrow> bool" where
  "truthy s = (case s of None \<Rightarrow> False | Some t \<Rightarrow> t \<noteq> [])"

text \<open>\<^verbatim>\<open>a || b\<close> on strings.\<close>

definition or_else :: "string \<Rightarrow> string \<Rightarrow> string" where
  "or_else a b = (if a \<noteq> [] then a else b)"

text \<open>
  Strings are sequences of bytes, a character outside ASCII being its UTF-8 encoding.
  \<^verbatim>\<open>String.prototype.trim\<close> removes white space and line terminators from both ends: the
  code points U+0009 to U+000D and U+0020 (one byte each), U+00A0 (two bytes), and
  U+1680, U+2000 to U+200A, U+2028, U+2029, U+202F, U+205F, U+3000 and U+FEFF (three
  bytes each).
\<close>

definition is_space :: "char \<Rightarrow> bool" where
  "is_space c = (c \<in> set [CHR 0x20, CHR 0x09, CHR 0x0A, CHR 0x0B, CHR 0x0C, CHR 0x0D])"

definition is_space2 :: "char \<Rightarrow> char \<Rightarrow> bool" where
  "is_space2 a b = (a = CHR 0xC2 \<and> b = CHR 0xA0)"

definition is_space3 :: "char \<Rightarrow> char \<Rightarrow> char \<Rightarrow> bool" where
  "is_space3 a b c =
     ((a = CHR 0xE1 \<and> b = CHR 0x9A \<and> c = CHR 0x80)
      \<or> (a = CHR 0xE2 \<and> b = CHR 0x80
          \<and> c \<in> set [CHR 0x80, CHR 0x81, CHR 0x82, CHR 0x83, CHR 0x84, CHR 0x85, CHR 0x86,
                      CHR 0x87, CHR 0x88, CHR 0x89, CHR 0x8A, CHR 0xA8, CHR 0xA9, CHR 0xAF])
      \<or> (a = CHR 0xE2 \<and> b = CHR 0x81 \<and> c = CHR 0x9F)
      \<or> (a = CHR 0xE3 \<and> b = CHR 0x80 \<and> c = CHR 0x80)
      \<or> (a = CHR 0xEF \<and> b = CHR 0xBB \<and> c = CHR 0xBF))"

text \<open>White space removed from the front.\<close>

fun trimStart :: "string \<Rightarrow> string" where
  "trimStart (a # b # c # s) =
     (if is_space a then trimStart (b # c # s)
      else if is_space2 a b then trimStart (c # s)
      else if is_space3 a b c then trimStart s
      else a # b # c # s)"
| "trimStart [a, b] =
     (if is_space a then trimStart [b] else if is_space2 a b then [] else [a, b])"
| "trimStart [a] = (if is_space a then [] else [a])"
| "trimStart [] = []"

text \<open>White space removed from the end, on the reversed string: its first byte is the last one.\<close>

fun trimEndRev :: "string \<Rightarrow> string" where
  "trimEndRev (c # b # a # s) =
     (if is_space c then trimEndRev (b # a # s)
      else if is_space2 b c then trimEndRev (a # s)
      else if is_space3 a b c then trimEndRev s
      else c # b # a # s)"
| "trimEndRev [c, b] =
     (if is_space c then trimEndRev [b] else if is_space2 b c then [] else [c, b])"
| "trimEndRev [c] = (if is_space c then [] else [c])"
| "trimEndRev [] = []"

definition trim :: "string \<Rightarrow> string" where
  "trim s = rev (trimEndRev (rev (trimStart s)))"

text \<open>Decimal rendering of a number inside a template string.\<close>

fun string_of_nat :: "nat \<Rightarrow> string" where
  "string_of_nat n =
     (if n < 10 then [char_of (48 + n)]
      else string_of_nat (n div 10) @ [char_of (48 + n mod 10)])"

declare string_of_nat.simps [simp del]

subsection \<open>Data model\<close>

text \<open>
  \<^verbatim>\<open>ThinkLevel\<close> is declared in \<^verbatim>\<open>auto-reply/thinking\<close>; the six levels are the
  ordered enumeration of the specification (off, minimal, low, medium, high, xhigh).
\<close>

datatype think_level = Off | Minimal | Low | Medium | High | XHigh

record agent_message =
  role :: string
  errorMessage :: "string option"
  msg_provider :: "string option"
  msg_model :: "string option"
  msg_usage :: "(string \<times> nat) list"

record model_info =
  model_id :: string
  model_provider :: string
  contextWindow :: "nat option"

record api_key_info =
  apiKey :: string
  profileId :: "string option"
  source :: string

text \<open>What the agent session of one attempt did, as seen by \<^verbatim>\<open>runEmbeddedAttempt\<close>.\<close>

record session_outcome =
  signalAborted :: bool
  abortCalls :: "bool list"
  so_promptError :: "js_error option"
  so_sessionId :: string
  messagesSnapshot :: "agent_message list"
  so_assistantTexts :: "string list"
  so_toolMetas :: "(string \<times> string option) list"
  so_didSendViaMessagingTool :: bool
  so_messagingToolSentTexts :: "string list"
  so_messagingToolSentTargets :: "string list"
  so_systemPromptReport :: "string option"

text \<open>
  The exits of the body of \<^verbatim>\<open>runEmbeddedAttempt\<close>: a throw before
  \<^verbatim>\<open>process.chdir(effectiveWorkspace)\<close>, a throw inside the \<^verbatim>\<open>try\<close> block, and a return.
  The string is the effective workspace.
\<close>

datatype attempt_outcome =
    SetupFailed js_error
  | BodyFailed string js_error
  | Completed string session_outcome

text \<open>\<^verbatim>\<open>EmbeddedRunAttemptResult\<close>.\<close>

record attempt_result =
  aborted :: bool
  timedOut :: bool
  promptError :: "js_error option"
  sessionIdUsed :: string
  systemPromptReport :: "string option"
  assistantTexts :: "string list"
  toolMetas :: "(string \<times> string option) list"
  lastAssistant :: "agent_message option"
  didSendViaMessagingTool :: bool
  messagingToolSentTexts :: "string list"
  messagingToolSentTargets :: "string list"
  cloudCodeAssistFormatError :: bool

record payload =
  payload_text :: "string option"
  isError :: "bool option"

datatype error_kind = context_overflow | compaction_failure

text \<open>\<^verbatim>\<open>EmbeddedPiAgentMeta\<close>, \<^verbatim>\<open>EmbeddedPiRunMeta\<close> and \<^verbatim>\<open>EmbeddedPiRunResult\<close>.\<close>

record agent_meta =
  am_sessionId :: string
  am_provider :: string
  am_model :: string
  am_usage :: "(string \<times> nat) list option"

record run_meta =
  agentMeta :: "agent_meta option"
  meta_aborted :: "bool option"
  meta_systemPromptReport :: "string option"
  meta_error :: "(error_kind \<times> string) option"

record run_result =
  payloads :: "payload list option"
  meta :: run_meta
  res_didSendViaMessagingTool :: "bool option"
  res_messagingToolSentTexts :: "string list option"
  res_messagingToolSentTargets :: "string list option"

text \<open>\<^verbatim>\<open>FailoverError\<close>: the message and the fields of its options object.\<close>

record failover_error =
  fe_message :: string
  fe_reason :: string
  fe_provider :: "string option"
  fe_model :: "string option"
  fe_profileId :: "string option"
  fe_status :: "nat option"

datatype run_error =
    PlainError string
  | FailoverError failover_error
  | Rethrown js_error

text \<open>Calls that leave the orchestrator, in the order they are made.\<close>

datatype event =
    GetApiKey "string option"
  | Mkdir
  | RunAttempt nat "string option" think_level
  | Chdir string
  | MarkFailure string string
  | MarkGood string string
  | MarkUsed string

subsection \<open>Parameters and collaborators\<close>

text \<open>The fields of \<^verbatim>\<open>RunEmbeddedPiAgentParams\<close> that the orchestrator itself reads.\<close>

record run_params =
  param_provider :: "string option"
  param_model :: "string option"
  authProfileId :: "string option"
  param_thinkLevel :: "think_level option"
  fallbacks :: "string list"

text \<open>
  Constants and pure helpers imported from \<^verbatim>\<open>defaults\<close>, \<^verbatim>\<open>context-window-guard\<close>,
  \<^verbatim>\<open>pi-embedded-helpers\<close>, \<^verbatim>\<open>failover-error\<close>, \<^verbatim>\<open>usage\<close>, \<^verbatim>\<open>utils\<close> and \<^verbatim>\<open>run/payloads\<close>.
\<close>

record helpers =
  DEFAULT_PROVIDER :: string
  DEFAULT_MODEL :: string
  DEFAULT_CONTEXT_TOKENS :: nat
  CONTEXT_WINDOW_HARD_MIN_TOKENS :: nat
  CONTEXT_WINDOW_WARN_BELOW_TOKENS :: nat
  describeUnknownError :: "js_error \<Rightarrow> string"
  isContextOverflowError :: "string \<Rightarrow> bool"
  isCompactionFailureError :: "string \<Rightarrow> bool"
  classifyFailoverReason :: "string \<Rightarrow> string option"
  isFailoverErrorMessage :: "string \<Rightarrow> bool"
  isTimeoutErrorMessage :: "string \<Rightarrow> bool"
  pickFallbackThinkingLevel :: "string option \<Rightarrow> think_level set \<Rightarrow> think_level option"
  isAuthAssistantError :: "agent_message option \<Rightarrow> bool"
  isRateLimitAssistantError :: "agent_message option \<Rightarrow> bool"
  isFailoverAssistantError :: "agent_message option \<Rightarrow> bool"
  isCloudCodeAssistFormatError :: "string \<Rightarrow> bool"
  formatAssistantErrorText :: "agent_message \<Rightarrow> string option"
  resolveFailoverStatus :: "string \<Rightarrow> nat option"
  normalizeUsage :: "(string \<times> nat) list option \<Rightarrow> (string \<times> nat) list option"
  buildEmbeddedRunPayloads :: "attempt_result \<Rightarrow> payload list"

text \<open>
  The collaborators with effects: model registry, context window resolver, credential
  store, token exchange, file system, and the agent session run by one attempt. The
  session's outcome may depend on how many attempts came before, on the credential in
  use and on the thinking level.
\<close>

record world =
  resolveModel :: "string \<Rightarrow> string \<Rightarrow> model_info option \<times> string option"
  resolveContextWindowInfo :: "string \<Rightarrow> string \<Rightarrow> nat option \<Rightarrow> nat \<Rightarrow> nat \<times> string"
  resolveAuthProfileOrder :: "string \<Rightarrow> string option \<Rightarrow> string list"
  getApiKeyForModel :: "string option \<Rightarrow> js_error + api_key_info"
  resolveCopilotApiToken :: "string \<Rightarrow> js_error + string"
  mkdirWorkspace :: "nat \<Rightarrow> js_error option"
  agentSession :: "nat \<Rightarrow> string option \<Rightarrow> think_level \<Rightarrow> attempt_outcome"

record env =
  params :: run_params
  helpers :: helpers
  world :: world

text \<open>The constants bound before the retry loop starts.\<close>

record run_ctx =
  provider :: string
  modelId :: string
  model :: model_info
  explicitProfileId :: "string option"
  profileCandidates :: "string option list"
  initialThinkLevel :: think_level

text \<open>The mutable locals of the run, the process working directory, and the trace.\<close>

record run_state =
  profileIndex :: nat
  thinkLevel :: think_level
  attemptedThinking :: "think_level set"
  apiKeyInfo :: "api_key_info option"
  lastProfileId :: "string option"
  runtimeApiKey :: "(string \<times> string) option"
  cwd :: string
  trace :: "event list"

definition emit :: "event \<Rightarrow> run_state \<Rightarrow> run_state" where
  "emit e st = st\<lparr>trace := trace st @ [e]\<rparr>"

definition chdir :: "string \<Rightarrow> run_state \<Rightarrow> run_state" where
  "chdir dir st = emit (Chdir dir) (st\<lparr>cwd := dir\<rparr>)"

text \<open>The attempts of a trace: candidate index, profile id in use, thinking level.\<close>

definition attempt_events :: "event list \<Rightarrow> (nat \<times> string option \<times> think_level) list" where
  "attempt_events tr =
     concat (map (\<lambda>e. case e of RunAttempt i p l \<Rightarrow> [(i, p, l)] | _ \<Rightarrow> []) tr)"

definition attempts_made :: "event list \<Rightarrow> nat" where
  "attempts_made tr = length (attempt_events tr)"

subsection \<open>Context window guard\<close>

record ctx_guard =
  tokens :: nat
  guard_source :: string
  shouldWarn :: bool
  shouldBlock :: bool

text \<open>
  Modelled from the spec: \<^verbatim>\<open>evaluateContextWindowGuard\<close> is imported from
  \<^verbatim>\<open>context-window-guard\<close>, which is not among the sources. The specification gives its
  contract: \<open>shouldBlock\<close> is true when the resolved tokens are below the hard minimum,
  \<open>shouldWarn\<close> is true when they are below the warning threshold and not already blocking.
\<close>

definition evaluateContextWindowGuard :: "nat \<times> string \<Rightarrow> nat \<Rightarrow> nat \<Rightarrow> ctx_guard" where
  "evaluateContextWindowGuard info warnBelowTokens hardMinTokens =
     \<lparr>tokens = fst info, guard_source = snd info,
      shouldWarn = (fst info < warnBelowTokens \<and> \<not> fst info < hardMinTokens),
      shouldBlock = (fst info < hardMinTokens)\<rparr>"

subsection \<open>Thinking-level fallback\<close>

text \<open>The position of a level on the ladder off, minimal, low, medium, high, xhigh.\<close>

fun level_rank :: "think_level \<Rightarrow> nat" where
  "level_rank Off = 0"
| "level_rank Minimal = 1"
| "level_rank Low = 2"
| "level_rank Medium = 3"
| "level_rank High = 4"
| "level_rank XHigh = 5"

text \<open>
  Modelled from the spec: \<^verbatim>\<open>pickFallbackThinkingLevel\<close> is imported from
  \<^verbatim>\<open>pi-embedded-helpers\<close>, which is not among the sources. The specification describes
  the downgrade step: when the message indicates an unsupported thinking level, pick the
  next lower thinking level not yet attempted, and none if no such level remains. Whether
  a message indicates an unsupported level is a parameter; the next lower level is the
  highest level below all attempted ones. The orchestrator itself takes the helper from
  its environment (field \<open>pickFallbackThinkingLevel\<close>).
\<close>

definition specPickFallbackThinkingLevel ::
  "(string \<Rightarrow> bool) \<Rightarrow> string option \<Rightarrow> think_level set \<Rightarrow> think_level option" where
  "specPickFallbackThinkingLevel unsupported message attempted =
     (case message of
        None \<Rightarrow> None
      | Some m \<Rightarrow>
          if unsupported m then
            find (\<lambda>l. l \<notin> attempted \<and> (\<forall>a \<in> attempted. level_rank l < level_rank a))
              [XHigh, High, Medium, Low, Minimal, Off]
          else None)"

subsection \<open>One attempt\<close>

text \<open>\<^verbatim>\<open>abortRun\<close> of \<^verbatim>\<open>runEmbeddedAttempt\<close>, on the pair of flags (aborted, timedOut).\<close>

definition abortRun :: "bool \<Rightarrow> bool \<times> bool \<Rightarrow> bool \<times> bool" where
  "abortRun isTimeout flags = (True, if isTimeout then True else snd flags)"

text \<open>
  The flags at the end of an attempt: \<open>aborted\<close> starts as the state of the caller's
  signal, \<open>timedOut\<close> as false, and each firing of the timer (\<open>True\<close>) or of the signal
  or the queue handle (\<open>False\<close>) calls \<^verbatim>\<open>abortRun\<close>.
\<close>

definition attemptFlags :: "bool \<Rightarrow> bool list \<Rightarrow> bool \<times> bool" where
  "attemptFlags signalled calls = foldl (\<lambda>flags isTimeout. abortRun isTimeout flags) (signalled, False) calls"

definition findLastAssistant :: "agent_message list \<Rightarrow> agent_message option" where
  "findLastAssistant msgs = find (\<lambda>m. role m = ''assistant'') (rev msgs)"

definition buildAttemptResult :: "env \<Rightarrow> session_outcome \<Rightarrow> attempt_result" where
  "buildAttemptResult env so =
     (let flags = attemptFlags (signalAborted so) (abortCalls so);
          lastAssistant = findLastAssistant (messagesSnapshot so)
      in \<lparr>aborted = fst flags,
          timedOut = snd flags,
          promptError = so_promptError so,
          sessionIdUsed = so_sessionId so,
          systemPromptReport = so_systemPromptReport so,
          assistantTexts = so_assistantTexts so,
          toolMetas = filter (\<lambda>entry. trim (fst entry) \<noteq> []) (so_toolMetas so),
          lastAssistant = lastAssistant,
          didSendViaMessagingTool = so_didSendViaMessagingTool so,
          messagingToolSentTexts = so_messagingToolSentTexts so,
          messagingToolSentTargets = so_messagingToolSentTargets so,
          cloudCodeAssistFormatError =
            (case lastAssistant of
               None \<Rightarrow> False
             | Some m \<Rightarrow>
                 (case errorMessage m of
                    None \<Rightarrow> False
                  | Some msg \<Rightarrow> msg \<noteq> [] \<and> isCloudCodeAssistFormatError (helpers env) msg))\<rparr>)"

text \<open>
  \<^verbatim>\<open>runEmbeddedAttempt\<close>: remember the working directory, change into the effective
  workspace, run the session, and in the \<^verbatim>\<open>finally\<close> block change back.
\<close>

definition runEmbeddedAttempt :: "env \<Rightarrow> run_state \<Rightarrow> (js_error + attempt_result) \<times> run_state" where
  "runEmbeddedAttempt env st =
     (let prevCwd = cwd st;
          st1 = emit (RunAttempt (profileIndex st) (lastProfileId st) (thinkLevel st)) st
      in case agentSession (world env) (attempts_made (trace st)) (lastProfileId st) (thinkLevel st) of
           SetupFailed err \<Rightarrow> (Inl err, st1)
         | BodyFailed effectiveWorkspace err \<Rightarrow>
             (Inl err, chdir prevCwd (chdir effectiveWorkspace st1))
         | Completed effectiveWorkspace so \<Rightarrow>
             (Inr (buildAttemptResult env so), chdir prevCwd (chdir effectiveWorkspace st1)))"

subsection \<open>Credential rotation\<close>

definition applyApiKeyInfo :: "env \<Rightarrow> run_ctx \<Rightarrow> string option \<Rightarrow> run_state \<Rightarrow> js_error option \<times> run_state" where
  "applyApiKeyInfo env ctx candidate st =
     (let st1 = emit (GetApiKey candidate) st
      in case getApiKeyForModel (world env) candidate of
           Inl err \<Rightarrow> (Some err, st1)
         | Inr info \<Rightarrow>
             (let st2 = st1\<lparr>apiKeyInfo := Some info\<rparr>
              in if model_provider (model ctx) = ''github-copilot'' then
                   (case resolveCopilotApiToken (world env) (apiKey info) of
                      Inl err \<Rightarrow> (Some err, st2)
                    | Inr token \<Rightarrow>
                        (None, st2\<lparr>runtimeApiKey := Some (model_provider (model ctx), token),
                                    lastProfileId := profileId info\<rparr>))
                 else
                   (None, st2\<lparr>runtimeApiKey := Some (model_provider (model ctx), apiKey info),
                               lastProfileId := profileId info\<rparr>)))"

text \<open>The \<^verbatim>\<open>while (nextIndex < profileCandidates.length)\<close> loop of \<^verbatim>\<open>advanceAuthProfile\<close>.\<close>

function advanceFrom :: "env \<Rightarrow> run_ctx \<Rightarrow> nat \<Rightarrow> run_state \<Rightarrow> (js_error + bool) \<times> run_state" where
  "advanceFrom env ctx nextIndex st =
     (if nextIndex < length (profileCandidates ctx) then
        (let candidate = profileCandidates ctx ! nextIndex;
             applied = applyApiKeyInfo env ctx candidate st
         in case fst applied of
              None \<Rightarrow>
                (Inr True, (snd applied)\<lparr>profileIndex := nextIndex,
                                         thinkLevel := initialThinkLevel ctx,
                                         attemptedThinking := {}\<rparr>)
            | Some err \<Rightarrow>
                if truthy candidate \<and> candidate = explicitProfileId ctx then (Inl err, snd applied)
                else advanceFrom env ctx (nextIndex + 1) (snd applied))
      else (Inr False, st))"
  by pat_completeness auto
termination
  by (relation "measure (\<lambda>(env, ctx, nextIndex, st). length (profileCandidates ctx) - nextIndex)") auto

declare advanceFrom.simps [simp del]

definition advanceAuthProfile :: "env \<Rightarrow> run_ctx \<Rightarrow> run_state \<Rightarrow> (js_error + bool) \<times> run_state" where
  "advanceAuthProfile env ctx st = advanceFrom env ctx (profileIndex st + 1) st"

subsection \<open>The retry loop\<close>

text \<open>How one pass through the body of \<^verbatim>\<open>while (true)\<close> ends.\<close>

datatype loop_exit = Continue | Return run_result | Throw run_error

definition markAuthProfileFailure :: "string \<Rightarrow> string \<Rightarrow> run_state \<Rightarrow> run_state" where
  "markAuthProfileFailure pid reason st = emit (MarkFailure pid reason) st"

text \<open>The soft-error result for a context overflow (lines 237 to 256).\<close>

definition contextOverflowResult :: "env \<Rightarrow> run_ctx \<Rightarrow> attempt_result \<Rightarrow> string \<Rightarrow> run_result" where
  "contextOverflowResult env ctx attempt errorText =
     (let kind = (if isCompactionFailureError (helpers env) errorText
                  then compaction_failure else context_overflow)
      in \<lparr>payloads =
            Some [\<lparr>payload_text =
                     Some (''Context overflow: prompt too large for the model. '' @
                           ''Try again with less input or a larger-context model.''),
                   isError = Some True\<rparr>],
          meta = \<lparr>agentMeta = Some \<lparr>am_sessionId = sessionIdUsed attempt,
                                    am_provider = provider ctx,
                                    am_model = model_id (model ctx),
                                    am_usage = None\<rparr>,
                  meta_aborted = None,
                  meta_systemPromptReport = systemPromptReport attempt,
                  meta_error = Some (kind, errorText)\<rparr>,
          res_didSendViaMessagingTool = None,
          res_messagingToolSentTexts = None,
          res_messagingToolSentTargets = None\<rparr>)"

text \<open>The thinking-level fallback after a prompt error, else the rethrow (lines 275 to 286).\<close>

definition promptFallback :: "env \<Rightarrow> js_error \<Rightarrow> string \<Rightarrow> run_state \<Rightarrow> loop_exit \<times> run_state" where
  "promptFallback env perr errorText st =
     (case pickFallbackThinkingLevel (helpers env) (Some errorText) (attemptedThinking st) of
        Some fallbackThinking \<Rightarrow> (Continue, st\<lparr>thinkLevel := fallbackThinking\<rparr>)
      | None \<Rightarrow> (Throw (Rethrown perr), st))"

text \<open>The branch \<^verbatim>\<open>if (promptError && !aborted)\<close> (lines 231 to 287).\<close>

definition promptErrorPath ::
  "env \<Rightarrow> run_ctx \<Rightarrow> attempt_result \<Rightarrow> js_error \<Rightarrow> run_state \<Rightarrow> loop_exit \<times> run_state" where
  "promptErrorPath env ctx attempt perr st =
     (let errorText = describeUnknownError (helpers env) perr
      in if isContextOverflowError (helpers env) errorText then
           (Return (contextOverflowResult env ctx attempt errorText), st)
         else
           (let promptFailoverReason = classifyFailoverReason (helpers env) errorText;
                st1 = (if truthy promptFailoverReason \<and> promptFailoverReason \<noteq> Some ''timeout''
                          \<and> truthy (lastProfileId st)
                       then markAuthProfileFailure (the (lastProfileId st)) (the promptFailoverReason) st
                       else st)
            in if isFailoverErrorMessage (helpers env) errorText
                  \<and> promptFailoverReason \<noteq> Some ''timeout'' then
                 (case advanceAuthProfile env ctx st1 of
                    (Inl err, st2) \<Rightarrow> (Throw (Rethrown err), st2)
                  | (Inr advanced, st2) \<Rightarrow>
                      if advanced then (Continue, st2) else promptFallback env perr errorText st2)
               else promptFallback env perr errorText st1))"

text \<open>The message and fields of the error thrown when rotation is exhausted (lines 341 to 365).\<close>

definition exhaustedFailoverError :: "env \<Rightarrow> run_ctx \<Rightarrow> attempt_result \<Rightarrow> run_state \<Rightarrow> failover_error" where
  "exhaustedFailoverError env ctx attempt st =
     (let la = lastAssistant attempt;
          authFailure = isAuthAssistantError (helpers env) la;
          rateLimitFailure = isRateLimitAssistantError (helpers env) la;
          assistantFailoverReason =
            classifyFailoverReason (helpers env)
              (case Option.bind la errorMessage of None \<Rightarrow> [] | Some m \<Rightarrow> m);
          message =
            or_else (case Option.bind la errorMessage of None \<Rightarrow> [] | Some m \<Rightarrow> trim m)
              (or_else
                 (case la of
                    None \<Rightarrow> []
                  | Some m \<Rightarrow> (case formatAssistantErrorText (helpers env) m of None \<Rightarrow> [] | Some t \<Rightarrow> t))
                 (if timedOut attempt then ''LLM request timed out.''
                  else if rateLimitFailure then ''LLM request rate limited.''
                  else if authFailure then ''LLM request unauthorized.''
                  else ''LLM request failed.''));
          reason = (case assistantFailoverReason of None \<Rightarrow> ''unknown'' | Some r \<Rightarrow> r);
          status =
            (case resolveFailoverStatus (helpers env) reason of
               Some code \<Rightarrow> Some code
             | None \<Rightarrow> if isTimeoutErrorMessage (helpers env) message then Some 408 else None)
      in \<lparr>fe_message = message, fe_reason = reason, fe_provider = Some (provider ctx),
          fe_model = Some (modelId ctx), fe_profileId = lastProfileId st, fe_status = status\<rparr>)"

text \<open>The normal end of a run (lines 369 to 413).\<close>

definition finishRun :: "env \<Rightarrow> run_ctx \<Rightarrow> attempt_result \<Rightarrow> run_state \<Rightarrow> loop_exit \<times> run_state" where
  "finishRun env ctx attempt st =
     (let la = lastAssistant attempt;
          usage = normalizeUsage (helpers env) (map_option msg_usage la);
          agentMeta = \<lparr>am_sessionId = sessionIdUsed attempt,
                       am_provider = (case Option.bind la msg_provider of
                                        None \<Rightarrow> provider ctx | Some p \<Rightarrow> p),
                       am_model = (case Option.bind la msg_model of
                                     None \<Rightarrow> model_id (model ctx) | Some m \<Rightarrow> m),
                       am_usage = usage\<rparr>;
          payloads = buildEmbeddedRunPayloads (helpers env) attempt;
          st1 = (if truthy (lastProfileId st)
                 then emit (MarkUsed (the (lastProfileId st)))
                        (emit (MarkGood (provider ctx) (the (lastProfileId st))) st)
                 else st)
      in (Return \<lparr>payloads = (if payloads \<noteq> [] then Some payloads else None),
                  meta = \<lparr>agentMeta = Some agentMeta,
                          meta_aborted = Some (aborted attempt),
                          meta_systemPromptReport = systemPromptReport attempt,
                          meta_error = None\<rparr>,
                  res_didSendViaMessagingTool = Some (didSendViaMessagingTool attempt),
                  res_messagingToolSentTexts = Some (messagingToolSentTexts attempt),
                  res_messagingToolSentTargets = Some (messagingToolSentTargets attempt)\<rparr>,
          st1))"

text \<open>The failure recorded when the run decides to rotate (lines 313 to 335).\<close>

definition recordRotationFailure :: "env \<Rightarrow> attempt_result \<Rightarrow> run_state \<Rightarrow> run_state" where
  "recordRotationFailure env attempt st =
     (let assistantFailoverReason =
            classifyFailoverReason (helpers env)
              (case Option.bind (lastAssistant attempt) errorMessage of None \<Rightarrow> [] | Some m \<Rightarrow> m)
      in if truthy (lastProfileId st) then
           (let reason =
                  (if timedOut attempt \<or> assistantFailoverReason = Some ''timeout''
                   then ''timeout''
                   else (case assistantFailoverReason of None \<Rightarrow> ''unknown'' | Some r \<Rightarrow> r))
            in markAuthProfileFailure (the (lastProfileId st)) reason st)
         else st)"

text \<open>What follows the call of \<^verbatim>\<open>advanceAuthProfile\<close> in the rotation branch (lines 337 to 367).\<close>

definition rotateExit ::
  "env \<Rightarrow> run_ctx \<Rightarrow> attempt_result \<Rightarrow> (js_error + bool) \<times> run_state \<Rightarrow> loop_exit \<times> run_state" where
  "rotateExit env ctx attempt advanced =
     (let fallbackConfigured = (length (fallbacks (params env)) > 0)
      in case advanced of
           (Inl err, st2) \<Rightarrow> (Throw (Rethrown err), st2)
         | (Inr rotated, st2) \<Rightarrow>
             if rotated then (Continue, st2)
             else if fallbackConfigured then
               (Throw (FailoverError (exhaustedFailoverError env ctx attempt st2)), st2)
             else finishRun env ctx attempt st2)"

text \<open>The rotation branch \<^verbatim>\<open>if (shouldRotate)\<close> (lines 312 to 367).\<close>

definition rotatePath :: "env \<Rightarrow> run_ctx \<Rightarrow> attempt_result \<Rightarrow> run_state \<Rightarrow> loop_exit \<times> run_state" where
  "rotatePath env ctx attempt st =
     rotateExit env ctx attempt (advanceAuthProfile env ctx (recordRotationFailure env attempt st))"

text \<open>The code after the prompt-error branch (lines 289 to 413).\<close>

definition completedPath :: "env \<Rightarrow> run_ctx \<Rightarrow> attempt_result \<Rightarrow> run_state \<Rightarrow> loop_exit \<times> run_state" where
  "completedPath env ctx attempt st =
     (let fallbackThinking =
            pickFallbackThinkingLevel (helpers env)
              (Option.bind (lastAssistant attempt) errorMessage) (attemptedThinking st)
      in if fallbackThinking \<noteq> None \<and> \<not> aborted attempt then
           (Continue, st\<lparr>thinkLevel := the fallbackThinking\<rparr>)
         else
           (let failoverFailure = isFailoverAssistantError (helpers env) (lastAssistant attempt);
                shouldRotate = ((\<not> aborted attempt \<and> failoverFailure) \<or> timedOut attempt)
            in if shouldRotate then rotatePath env ctx attempt st
               else finishRun env ctx attempt st))"

text \<open>One pass through the body of the loop (lines 182 to 413).\<close>

definition loopBody :: "env \<Rightarrow> run_ctx \<Rightarrow> run_state \<Rightarrow> loop_exit \<times> run_state" where
  "loopBody env ctx st0 =
     (let st = st0\<lparr>attemptedThinking := insert (thinkLevel st0) (attemptedThinking st0)\<rparr>;
          st' = emit Mkdir st
      in case mkdirWorkspace (world env) (attempts_made (trace st)) of
           Some err \<Rightarrow> (Throw (Rethrown err), st')
         | None \<Rightarrow>
             (case runEmbeddedAttempt env st' of
                (Inl err, st1) \<Rightarrow> (Throw (Rethrown err), st1)
              | (Inr attempt, st1) \<Rightarrow>
                  (case promptError attempt of
                     Some perr \<Rightarrow>
                       if \<not> aborted attempt then promptErrorPath env ctx attempt perr st1
                       else completedPath env ctx attempt st1
                   | None \<Rightarrow> completedPath env ctx attempt st1)))"

text \<open>
  The loop itself. It has no bound of its own, so the model counts the passes it may
  still make: \<open>None\<close> means that the passes allowed were used up before the loop ended.
\<close>

fun runLoop :: "nat \<Rightarrow> env \<Rightarrow> run_ctx \<Rightarrow> run_state \<Rightarrow> ((run_error + run_result) \<times> run_state) option" where
  "runLoop 0 env ctx st = None"
| "runLoop (Suc fuel) env ctx st =
     (case loopBody env ctx st of
        (Continue, st') \<Rightarrow> runLoop fuel env ctx st'
      | (Return result, st') \<Rightarrow> Some (Inr result, st')
      | (Throw err, st') \<Rightarrow> Some (Inl err, st'))"

subsection \<open>The run\<close>

definition candidatesOf :: "string list \<Rightarrow> string option list" where
  "candidatesOf profileOrder = (if length profileOrder > 0 then map Some profileOrder else [None])"

definition initialState :: "run_ctx \<Rightarrow> string \<Rightarrow> run_state" where
  "initialState ctx dir =
     \<lparr>profileIndex = 0, thinkLevel = initialThinkLevel ctx, attemptedThinking = {},
      apiKeyInfo = None, lastProfileId = None, runtimeApiKey = None, cwd = dir, trace = []\<rparr>"

text \<open>\<^verbatim>\<open>try { while (true) ... } finally { process.chdir(prevCwd) }\<close> (lines 180 to 417).\<close>

definition guardedLoop ::
  "nat \<Rightarrow> env \<Rightarrow> run_ctx \<Rightarrow> string \<Rightarrow> run_state \<Rightarrow> ((run_error + run_result) \<times> run_state) option" where
  "guardedLoop fuel env ctx prevCwd st =
     map_option (\<lambda>(res, st'). (res, chdir prevCwd st')) (runLoop fuel env ctx st)"

text \<open>The constants of lines 111 to 124.\<close>

definition buildCtx :: "env \<Rightarrow> string \<Rightarrow> string \<Rightarrow> model_info \<Rightarrow> run_ctx" where
  "buildCtx env prov mid mdl =
     (let explicitProfileId = map_option trim (authProfileId (params env));
          profileOrder = resolveAuthProfileOrder (world env) prov explicitProfileId
      in \<lparr>provider = prov, modelId = mid, model = mdl,
          explicitProfileId = explicitProfileId,
          profileCandidates = candidatesOf profileOrder,
          initialThinkLevel = (case param_thinkLevel (params env) of None \<Rightarrow> Off | Some l \<Rightarrow> l)\<rparr>)"

text \<open>Lines 110 to 417: candidate list, first credential, loop.\<close>

definition runWithModel ::
  "nat \<Rightarrow> env \<Rightarrow> string \<Rightarrow> string \<Rightarrow> model_info \<Rightarrow> string \<Rightarrow> ((run_error + run_result) \<times> run_state) option" where
  "runWithModel fuel env prov mid mdl prevCwd =
     (let ctx = buildCtx env prov mid mdl;
          profileOrder = resolveAuthProfileOrder (world env) prov (explicitProfileId ctx);
          st0 = initialState ctx prevCwd
      in if truthy (explicitProfileId ctx) \<and> the (explicitProfileId ctx) \<notin> set profileOrder then
           Some (Inl (PlainError (''Auth profile '' @ [CHR 0x22] @ the (explicitProfileId ctx) @ [CHR 0x22] @
                                   '' is not configured for '' @ prov @ ''.'')), st0)
         else
           (case applyApiKeyInfo env ctx (profileCandidates ctx ! profileIndex st0) st0 of
              (None, st1) \<Rightarrow> guardedLoop fuel env ctx prevCwd st1
            | (Some err, st1) \<Rightarrow>
                if profileCandidates ctx ! profileIndex st1 = explicitProfileId ctx then
                  Some (Inl (Rethrown err), st1)
                else
                  (case advanceAuthProfile env ctx st1 of
                     (Inl err', st2) \<Rightarrow> Some (Inl (Rethrown err'), st2)
                   | (Inr advanced, st2) \<Rightarrow>
                       if \<not> advanced then Some (Inl (Rethrown err), st2)
                       else guardedLoop fuel env ctx prevCwd st2)))"

text \<open>Lines 68 and 69: the provider and model identifiers, with their defaults.\<close>

definition resolvedProvider :: "env \<Rightarrow> string" where
  "resolvedProvider env =
     or_else (trim (case param_provider (params env) of
                      None \<Rightarrow> DEFAULT_PROVIDER (helpers env) | Some p \<Rightarrow> p))
       (DEFAULT_PROVIDER (helpers env))"

definition resolvedModelId :: "env \<Rightarrow> string" where
  "resolvedModelId env =
     or_else (trim (case param_model (params env) of
                      None \<Rightarrow> DEFAULT_MODEL (helpers env) | Some m \<Rightarrow> m))
       (DEFAULT_MODEL (helpers env))"

text \<open>The state of a run that has not yet touched a collaborator.\<close>

definition untouched :: "string \<Rightarrow> run_state" where
  "untouched dir =
     \<lparr>profileIndex = 0, thinkLevel = Off, attemptedThinking = {}, apiKeyInfo = None,
      lastProfileId = None, runtimeApiKey = None, cwd = dir, trace = []\<rparr>"

text \<open>
  \<^verbatim>\<open>runEmbeddedPiAgent\<close>, the task that runs once both lanes have released it. The first
  argument bounds the passes of the retry loop, the last is the working directory of the
  process when the task starts.
\<close>

definition runEmbeddedPiAgent ::
  "nat \<Rightarrow> env \<Rightarrow> string \<Rightarrow> ((run_error + run_result) \<times> run_state) option" where
  "runEmbeddedPiAgent fuel env prevCwd =
     (let h = helpers env;
          provider = resolvedProvider env;
          modelId = resolvedModelId env
      in case resolveModel (world env) provider modelId of
           (None, error) \<Rightarrow>
             Some (Inl (PlainError (case error of
                                      Some e \<Rightarrow> e
                                    | None \<Rightarrow> ''Unknown model: '' @ provider @ ''/'' @ modelId)),
                   untouched prevCwd)
         | (Some mdl, error) \<Rightarrow>
             (let ctxInfo = resolveContextWindowInfo (world env) provider modelId
                              (contextWindow mdl) (DEFAULT_CONTEXT_TOKENS h);
                  ctxGuard = evaluateContextWindowGuard ctxInfo
                               (CONTEXT_WINDOW_WARN_BELOW_TOKENS h) (CONTEXT_WINDOW_HARD_MIN_TOKENS h)
              in if shouldBlock ctxGuard then
                   Some (Inl (FailoverError
                     \<lparr>fe_message = ''Model context window too small ('' @ string_of_nat (tokens ctxGuard) @
                                    '' tokens). Minimum is '' @
                                    string_of_nat (CONTEXT_WINDOW_HARD_MIN_TOKENS h) @ ''.'',
                      fe_reason = ''unknown'', fe_provider = Some provider, fe_model = Some modelId,
                      fe_profileId = None, fe_status = None\<rparr>), untouched prevCwd)
                 else runWithModel fuel env provider modelId mdl prevCwd))"

section \<open>Invariants and observations\<close>

text \<open>
  The credential in use under candidate index \<open>i\<close> is the one the store resolves for the
  \<open>i\<close>-th configured candidate.
\<close>

definition cred_ok :: "env \<Rightarrow> run_ctx \<Rightarrow> nat \<Rightarrow> string option \<Rightarrow> bool" where
  "cred_ok env ctx i p =
     (i < length (profileCandidates ctx) \<and>
      (case getApiKeyForModel (world env) (profileCandidates ctx ! i) of
         Inl err \<Rightarrow> False
       | Inr info \<Rightarrow> p = profileId info))"

text \<open>
  The two ways in which a pass continues the loop: the thinking-level fallback chose the
  next level on the same credential, or \<^verbatim>\<open>advanceAuthProfile\<close> moved to a later candidate
  and reset the ladder.
\<close>

definition downgraded :: "env \<Rightarrow> run_state \<Rightarrow> run_state \<Rightarrow> bool" where
  "downgraded env st st' =
     (profileIndex st' = profileIndex st \<and> attemptedThinking st' = attemptedThinking st
      \<and> lastProfileId st' = lastProfileId st
      \<and> (\<exists>m. pickFallbackThinkingLevel (helpers env) m (attemptedThinking st) = Some (thinkLevel st')))"

definition rotated :: "env \<Rightarrow> run_ctx \<Rightarrow> run_state \<Rightarrow> run_state \<Rightarrow> bool" where
  "rotated env ctx st st' =
     (profileIndex st < profileIndex st' \<and> attemptedThinking st' = {}
      \<and> thinkLevel st' = initialThinkLevel ctx
      \<and> cred_ok env ctx (profileIndex st') (lastProfileId st'))"

text \<open>
  What every path of the loop body keeps: the working directory and the attempts made so
  far; when the path continues the loop, it does so by a downgrade or by a rotation; and
  when it returns a result without an error tag under a profile id, its last two calls
  mark that profile good and used.
\<close>

definition path_exit :: "env \<Rightarrow> run_ctx \<Rightarrow> run_state \<Rightarrow> loop_exit \<times> run_state \<Rightarrow> bool" where
  "path_exit env ctx st out =
     (cwd (snd out) = cwd st \<and> attempt_events (trace (snd out)) = attempt_events (trace st)
      \<and> (fst out = Continue \<longrightarrow> downgraded env st (snd out) \<or> rotated env ctx st (snd out))
      \<and> (\<forall>res. fst out = Return res \<and> meta_error (meta res) = None
                  \<and> truthy (lastProfileId (snd out)) \<longrightarrow>
             (\<exists>tr. trace (snd out) =
                     tr @ [MarkGood (provider ctx) (the (lastProfileId (snd out))),
                           MarkUsed (the (lastProfileId (snd out)))])))"

text \<open>The state after \<^verbatim>\<open>attemptedThinking.add(thinkLevel)\<close>, the first statement of the loop body.\<close>

definition entered :: "run_state \<Rightarrow> run_state" where
  "entered st = st\<lparr>attemptedThinking := insert (thinkLevel st) (attemptedThinking st)\<rparr>"

text \<open>The thinking levels, lowest first.\<close>

definition ladder :: "think_level list" where
  "ladder = [Off, Minimal, Low, Medium, High, XHigh]"

text \<open>Candidate index and thinking level of each attempt of a trace.\<close>

definition attempt_keys :: "event list \<Rightarrow> (nat \<times> think_level) list" where
  "attempt_keys tr = map (\<lambda>e. (fst e, snd (snd e))) (attempt_events tr)"

text \<open>
  A bound on the passes the loop can still make: the levels not yet attempted under the
  current candidate, and the whole ladder for every later candidate.
\<close>

definition remaining :: "run_ctx \<Rightarrow> run_state \<Rightarrow> nat" where
  "remaining ctx st =
     (length (profileCandidates ctx) - profileIndex st) * length ladder - card (attemptedThinking st)"

text \<open>
  At the head of the loop the level about to be attempted is not in the attempted set,
  every earlier attempt ran under an earlier candidate or under the current one at a
  level of the attempted set, and no two attempts share candidate and level.
\<close>

definition ladder_inv :: "run_ctx \<Rightarrow> run_state \<Rightarrow> bool" where
  "ladder_inv ctx st =
     (profileIndex st < length (profileCandidates ctx)
      \<and> thinkLevel st \<notin> attemptedThinking st
      \<and> (\<forall>k \<in> set (attempt_keys (trace st)).
            fst k < profileIndex st \<or> (fst k = profileIndex st \<and> snd k \<in> attemptedThinking st))
      \<and> distinct (attempt_keys (trace st)))"

text \<open>
  At the head of the loop the credential in use belongs to the current candidate, and the
  attempts so far ran under candidates up to the current one, in order.
\<close>

definition traversal_inv :: "env \<Rightarrow> run_ctx \<Rightarrow> run_state \<Rightarrow> bool" where
  "traversal_inv env ctx st =
     (cred_ok env ctx (profileIndex st) (lastProfileId st)
      \<and> (\<forall>e \<in> set (attempt_events (trace st)).
            fst e \<le> profileIndex st \<and> cred_ok env ctx (fst e) (fst (snd e)))
      \<and> sorted (map fst (attempt_events (trace st))))"

text \<open>The candidate list of a run (line 121), as a function of the environment.\<close>

definition configuredCandidates :: "env \<Rightarrow> string option list" where
  "configuredCandidates env =
     candidatesOf (resolveAuthProfileOrder (world env) (resolvedProvider env)
                     (map_option trim (authProfileId (params env))))"

text \<open>The state in which a run enters the retry loop.\<close>

definition loop_entry :: "env \<Rightarrow> run_ctx \<Rightarrow> string \<Rightarrow> run_state \<Rightarrow> bool" where
  "loop_entry env ctx dir st =
     (cwd st = dir \<and> attempt_events (trace st) = [] \<and> attemptedThinking st = {}
      \<and> cred_ok env ctx (profileIndex st) (lastProfileId st))"

text \<open>The state right after a completed attempt that ran in workspace \<open>ws\<close>.\<close>

definition after_attempt :: "string \<Rightarrow> run_state \<Rightarrow> run_state" where
  "after_attempt ws st =
     chdir (cwd st) (chdir ws
       (emit (RunAttempt (profileIndex st) (lastProfileId st) (thinkLevel st))
          (emit Mkdir (entered st))))"

text \<open>The trace of a run, and whether the run returned a result.\<close>

definition run_trace :: "((run_error + run_result) \<times> run_state) option \<Rightarrow> event list" where
  "run_trace out = (case out of None \<Rightarrow> [] | Some (res, st) \<Rightarrow> trace st)"

definition returned_normally :: "((run_error + run_result) \<times> run_state) option \<Rightarrow> bool" where
  "returned_normally out = (case out of Some (Inr res, st) \<Rightarrow> True | _ \<Rightarrow> False)"


text \<open>
  The state in which the rotation branch calls \<^verbatim>\<open>advanceAuthProfile\<close> after a completed
  attempt in workspace \<open>ws\<close>, and the state in which \<^verbatim>\<open>advanceAuthProfile\<close> leaves the
  run when the credential of candidate \<open>n\<close> has resolved.
\<close>

definition rotation_recorded :: "env \<Rightarrow> session_outcome \<Rightarrow> string \<Rightarrow> run_state \<Rightarrow> run_state" where
  "rotation_recorded env so ws st =
     recordRotationFailure env (buildAttemptResult env so) (after_attempt ws st)"

definition advanced_to :: "run_ctx \<Rightarrow> nat \<Rightarrow> run_state \<Rightarrow> run_state" where
  "advanced_to ctx n st =
     st\<lparr>profileIndex := n, thinkLevel := initialThinkLevel ctx, attemptedThinking := {}\<rparr>"

section \<open>Sample environments\<close>

text \<open>
  Concrete collaborators, used to run the model: two configured profiles whose credentials
  resolve, a model with the default context window, and a session that answers at once.
\<close>

definition sample_helpers :: helpers where
  "sample_helpers =
     \<lparr>DEFAULT_PROVIDER = ''anthropic'', DEFAULT_MODEL = ''opus'', DEFAULT_CONTEXT_TOKENS = 200000,
      CONTEXT_WINDOW_HARD_MIN_TOKENS = 1000, CONTEXT_WINDOW_WARN_BELOW_TOKENS = 2000,
      describeUnknownError = (\<lambda>e. case e of JsError m \<Rightarrow> m),
      isContextOverflowError = (\<lambda>t. t = ''context overflow'' \<or> t = ''compaction failed''),
      isCompactionFailureError = (\<lambda>t. t = ''compaction failed''),
      classifyFailoverReason = (\<lambda>t. if t = ''rate limit'' then Some ''rate_limit'' else None),
      isFailoverErrorMessage = (\<lambda>t. t = ''rate limit''),
      isTimeoutErrorMessage = (\<lambda>t. t = ''LLM request timed out.''),
      pickFallbackThinkingLevel = specPickFallbackThinkingLevel (\<lambda>m. m = ''unsupported level''),
      isAuthAssistantError = (\<lambda>m. False),
      isRateLimitAssistantError = (\<lambda>m. Option.bind m errorMessage = Some ''rate limit''),
      isFailoverAssistantError = (\<lambda>m. Option.bind m errorMessage = Some ''rate limit''),
      isCloudCodeAssistFormatError = (\<lambda>t. False),
      formatAssistantErrorText = (\<lambda>m. errorMessage m),
      resolveFailoverStatus = (\<lambda>r. if r = ''rate_limit'' then Some 429 else None),
      normalizeUsage = (\<lambda>u. u),
      buildEmbeddedRunPayloads =
        (\<lambda>a. map (\<lambda>t. \<lparr>payload_text = Some t, isError = None\<rparr>) (assistantTexts a))\<rparr>"

definition sample_session :: session_outcome where
  "sample_session =
     \<lparr>signalAborted = False, abortCalls = [], so_promptError = None, so_sessionId = ''s1'',
      messagesSnapshot = [], so_assistantTexts = [''hello''], so_toolMetas = [],
      so_didSendViaMessagingTool = False, so_messagingToolSentTexts = [],
      so_messagingToolSentTargets = [], so_systemPromptReport = None\<rparr>"

definition sample_world :: world where
  "sample_world =
     \<lparr>resolveModel = (\<lambda>p m. (Some \<lparr>model_id = m, model_provider = p, contextWindow = None\<rparr>, None)),
      resolveContextWindowInfo = (\<lambda>p m cw d. (d, ''default'')),
      resolveAuthProfileOrder = (\<lambda>p preferred. [''p1'', ''p2'']),
      getApiKeyForModel = (\<lambda>c. Inr \<lparr>apiKey = ''key'', profileId = c, source = ''profile''\<rparr>),
      resolveCopilotApiToken = (\<lambda>k. Inr k),
      mkdirWorkspace = (\<lambda>n. None),
      agentSession = (\<lambda>n p l. Completed ''/ws'' sample_session)\<rparr>"

definition sample_params :: run_params where
  "sample_params =
     \<lparr>param_provider = None, param_model = None, authProfileId = None,
      param_thinkLevel = None, fallbacks = []\<rparr>"

definition sample_env :: env where
  "sample_env = \<lparr>params = sample_params, helpers = sample_helpers, world = sample_world\<rparr>"

text \<open>A context window of 500 tokens against a hard minimum of 1000.\<close>

definition small_window_env :: env where
  "small_window_env =
     sample_env\<lparr>world := sample_world\<lparr>resolveContextWindowInfo := (\<lambda>p m cw d. (500, ''modelsConfig''))\<rparr>\<rparr>"

text \<open>The first attempt runs into the timer, every later one answers.\<close>

definition rotating_env :: env where
  "rotating_env =
     sample_env\<lparr>world := sample_world\<lparr>agentSession :=
       (\<lambda>n p l. if n = 0 then Completed ''/ws'' (sample_session\<lparr>abortCalls := [True]\<rparr>)
                 else Completed ''/ws'' sample_session)\<rparr>\<rparr>"

text \<open>A session that the timer of the attempt aborted.\<close>

definition timed_out_session :: session_outcome where
  "timed_out_session = sample_session\<lparr>abortCalls := [True]\<rparr>"

text \<open>The caller cancels during the attempt.\<close>

definition aborted_env :: env where
  "aborted_env =
     sample_env\<lparr>world := sample_world\<lparr>agentSession :=
       (\<lambda>n p l. Completed ''/ws'' (sample_session\<lparr>abortCalls := [False]\<rparr>))\<rparr>\<rparr>"

text \<open>The prompt fails with a context overflow.\<close>

definition overflow_env :: env where
  "overflow_env =
     sample_env\<lparr>world := sample_world\<lparr>agentSession :=
       (\<lambda>n p l. Completed ''/ws''
                   (sample_session\<lparr>so_promptError := Some (JsError ''context overflow'')\<rparr>))\<rparr>\<rparr>"

text \<open>A loop state with one candidate, whose credential is in use.\<close>

definition sample_ctx :: run_ctx where
  "sample_ctx =
     \<lparr>provider = ''anthropic'', modelId = ''opus'',
      model = \<lparr>model_id = ''opus'', model_provider = ''anthropic'', contextWindow = None\<rparr>,
      explicitProfileId = None, profileCandidates = [Some ''p1''], initialThinkLevel = Off\<rparr>"

definition sample_state :: run_state where
  "sample_state =
     \<lparr>profileIndex = 0, thinkLevel = Off, attemptedThinking = {},
      apiKeyInfo = Some \<lparr>apiKey = ''key'', profileId = Some ''p1'', source = ''profile''\<rparr>,
      lastProfileId = Some ''p1'', runtimeApiKey = Some (''anthropic'', ''key''),
      cwd = ''/home'', trace = [GetApiKey (Some ''p1'')]\<rparr>"

text \<open>One configured profile, every attempt times out; without and with a fallback model.\<close>

definition lone_env :: env where
  "lone_env =
     sample_env\<lparr>world := sample_world\<lparr>resolveAuthProfileOrder := (\<lambda>p preferred. [''p1'']),
       agentSession := (\<lambda>n p l. Completed ''/ws'' timed_out_session)\<rparr>\<rparr>"

definition lone_fallback_env :: env where
  "lone_fallback_env = lone_env\<lparr>params := sample_params\<lparr>fallbacks := [''backup-model'']\<rparr>\<rparr>"

text \<open>No profile configured: the credential in use has no profile id. Every attempt times out.\<close>

definition anonymous_env :: env where
  "anonymous_env =
     sample_env\<lparr>world := sample_world\<lparr>resolveAuthProfileOrder := (\<lambda>p preferred. []),
       agentSession := (\<lambda>n p l. Completed ''/ws'' timed_out_session)\<rparr>\<rparr>"

text \<open>The caller pins \<open>p1\<close>; the first attempt times out.\<close>

definition pinned_env :: env where
  "pinned_env = rotating_env\<lparr>params := sample_params\<lparr>authProfileId := Some ''p1''\<rparr>\<rparr>"

text \<open>The caller pins \<open>p1\<close>, whose credential does not resolve.\<close>

definition unresolvable_pinned_env :: env where
  "unresolvable_pinned_env =
     sample_env\<lparr>params := sample_params\<lparr>authProfileId := Some ''p1''\<rparr>,
       world := sample_world\<lparr>getApiKeyForModel :=
         (\<lambda>c. if c = Some ''p1'' then Inl (JsError ''missing secret'')
              else Inr \<lparr>apiKey = ''key'', profileId = c, source = ''profile''\<rparr>)\<rparr>\<rparr>"



text \<open>A loop with two candidates, and a loop state whose credential has no profile id.\<close>

definition two_ctx :: run_ctx where
  "two_ctx = sample_ctx\<lparr>profileCandidates := [Some ''p1'', Some ''p2'']\<rparr>"

definition anonymous_state :: run_state where
  "anonymous_state =
     \<lparr>profileIndex = 0, thinkLevel = Off, attemptedThinking = {},
      apiKeyInfo = Some \<lparr>apiKey = ''key'', profileId = None, source = ''env''\<rparr>,
      lastProfileId = None, runtimeApiKey = Some (''anthropic'', ''key''),
      cwd = ''/home'', trace = [GetApiKey None]\<rparr>"

text \<open>The constants of the run in which \<open>p1\<close> is pinned.\<close>

definition pinned_ctx :: run_ctx where
  "pinned_ctx =
     buildCtx pinned_env ''anthropic'' ''opus''
       \<lparr>model_id = ''opus'', model_provider = ''anthropic'', contextWindow = None\<rparr>"

section \<open>Properties of the model\<close>

subsection \<open>Traces and frames\<close>

lemmas sample_defs = sample_env_def sample_params_def sample_world_def sample_helpers_def sample_session_def

lemma attempt_events_append [simp]: "attempt_events (xs @ ys) = attempt_events xs @ attempt_events ys"
  by (simp add: attempt_events_def)

lemma attempt_events_Nil [simp]: "attempt_events [] = []"
  by (simp add: attempt_events_def)

lemma attempt_events_Cons [simp]:
  "attempt_events (e # tr) = (case e of RunAttempt i p l \<Rightarrow> [(i, p, l)] | _ \<Rightarrow> []) @ attempt_events tr"
  by (cases e) (simp_all add: attempt_events_def)

lemma attempt_events_GetApiKey [simp]: "attempt_events (map GetApiKey cs) = []"
  by (induction cs) simp_all

lemma attempts_made_append [simp]: "attempts_made (xs @ ys) = attempts_made xs + attempts_made ys"
  by (simp add: attempts_made_def)

lemma applyApiKeyInfo_frame:
  assumes "applyApiKeyInfo env ctx c st = (r, st')"
  shows "trace st' = trace st @ [GetApiKey c]" and "cwd st' = cwd st"
    and "profileIndex st' = profileIndex st" and "thinkLevel st' = thinkLevel st"
    and "attemptedThinking st' = attemptedThinking st"
  using assms
  by (auto simp: applyApiKeyInfo_def emit_def Let_def split: sum.splits if_splits)

lemma applyApiKeyInfo_failed:
  "applyApiKeyInfo env ctx c st = (Some err, st') \<Longrightarrow> lastProfileId st' = lastProfileId st"
  by (auto simp: applyApiKeyInfo_def emit_def Let_def split: sum.splits if_splits)

lemma applyApiKeyInfo_ok:
  "applyApiKeyInfo env ctx c st = (None, st') \<Longrightarrow>
     \<exists>info. getApiKeyForModel (world env) c = Inr info \<and> lastProfileId st' = profileId info"
  by (auto simp: applyApiKeyInfo_def emit_def Let_def split: sum.splits if_splits)

lemma abortRun_keeps: "snd flags \<longrightarrow> fst flags \<Longrightarrow> snd (abortRun t flags) \<longrightarrow> fst (abortRun t flags)"
  by (simp add: abortRun_def)

lemma foldl_abortRun:
  "snd flags \<longrightarrow> fst flags \<Longrightarrow>
     snd (foldl (\<lambda>f t. abortRun t f) flags calls) \<longrightarrow> fst (foldl (\<lambda>f t. abortRun t f) flags calls)"
  by (induction calls arbitrary: flags) (simp_all add: abortRun_def)

lemma timedOut_aborted: "timedOut (buildAttemptResult env so) \<Longrightarrow> aborted (buildAttemptResult env so)"
  using foldl_abortRun[of "(signalAborted so, False)" "abortCalls so"]
  by (simp add: buildAttemptResult_def attemptFlags_def Let_def)

lemma advanceFrom_cases:
  assumes "advanceFrom env ctx n st = (r, st')"
  obtains
    (exhausted) "\<not> n < length (profileCandidates ctx)" "r = Inr False" "st' = st"
  | (resolved) st1 where "n < length (profileCandidates ctx)"
      "applyApiKeyInfo env ctx (profileCandidates ctx ! n) st = (None, st1)" "r = Inr True"
      "st' = st1\<lparr>profileIndex := n, thinkLevel := initialThinkLevel ctx, attemptedThinking := {}\<rparr>"
  | (pinned) err where "n < length (profileCandidates ctx)"
      "applyApiKeyInfo env ctx (profileCandidates ctx ! n) st = (Some err, st')" "r = Inl err"
      "truthy (profileCandidates ctx ! n)" "profileCandidates ctx ! n = explicitProfileId ctx"
  | (skipped) err st1 where "n < length (profileCandidates ctx)"
      "applyApiKeyInfo env ctx (profileCandidates ctx ! n) st = (Some err, st1)"
      "advanceFrom env ctx (n + 1) st1 = (r, st')"
proof (cases "n < length (profileCandidates ctx)")
  case False
  with assms have "r = Inr False" "st' = st"
    by (simp_all add: advanceFrom.simps[of env ctx n st])
  with False show thesis by (rule exhausted)
next
  case True
  obtain a st1 where ap: "applyApiKeyInfo env ctx (profileCandidates ctx ! n) st = (a, st1)"
    by (cases "applyApiKeyInfo env ctx (profileCandidates ctx ! n) st")
  show thesis
  proof (cases a)
    case None
    with True ap assms
    have "r = Inr True"
      "st' = st1\<lparr>profileIndex := n, thinkLevel := initialThinkLevel ctx, attemptedThinking := {}\<rparr>"
      by (simp_all add: advanceFrom.simps[of env ctx n st] Let_def)
    with True ap[unfolded None] show thesis by (rule resolved)
  next
    case (Some err)
    show thesis
    proof (cases "truthy (profileCandidates ctx ! n) \<and> profileCandidates ctx ! n = explicitProfileId ctx")
      case pin: True
      from pin have t1: "truthy (profileCandidates ctx ! n)"
        and e1: "profileCandidates ctx ! n = explicitProfileId ctx" by blast+
      have "advanceFrom env ctx n st = (Inl err, st1)"
        by (simp add: advanceFrom.simps[of env ctx n st] Let_def True ap Some t1 e1[symmetric])
      with assms have r: "r = Inl err" and s: "st1 = st'" by simp_all
      from ap Some s
      have ap': "applyApiKeyInfo env ctx (profileCandidates ctx ! n) st = (Some err, st')" by simp
      show thesis by (rule pinned[OF True ap' r t1 e1])
    next
      case other: False
      then have c: "(truthy (profileCandidates ctx ! n)
                      \<and> profileCandidates ctx ! n = explicitProfileId ctx) = False"
        by blast
      have "advanceFrom env ctx n st = advanceFrom env ctx (n + 1) st1"
        by (simp add: advanceFrom.simps[of env ctx n st] Let_def True ap Some c del: de_Morgan_conj)
      with assms have "advanceFrom env ctx (n + 1) st1 = (r, st')" by simp
      with True ap Some show thesis by (intro skipped[of err st1]) simp_all
    qed
  qed
qed

lemma advanceFrom_frame:
  "advanceFrom env ctx n st = (r, st') \<Longrightarrow>
     cwd st' = cwd st \<and> (\<exists>cs. trace st' = trace st @ map GetApiKey cs)"
proof (induction "length (profileCandidates ctx) - n" arbitrary: n st)
  case 0
  from "0.prems" show ?case
  proof (cases rule: advanceFrom_cases)
    case exhausted
    then show ?thesis by (simp add: exI[of _ "[]"])
  qed (use 0 in simp_all)
next
  case (Suc k)
  from Suc.prems show ?case
  proof (cases rule: advanceFrom_cases)
    case exhausted
    then show ?thesis by (simp add: exI[of _ "[]"])
  next
    case (resolved st1)
    from applyApiKeyInfo_frame(1,2)[OF resolved(2)] resolved(4) show ?thesis
      by (simp add: exI[of _ "[profileCandidates ctx ! n]"])
  next
    case (pinned err)
    from applyApiKeyInfo_frame(1,2)[OF pinned(2)] show ?thesis
      by (simp add: exI[of _ "[profileCandidates ctx ! n]"])
  next
    case (skipped err st1)
    from Suc.hyps(2) have "k = length (profileCandidates ctx) - (n + 1)" by simp
    from Suc.hyps(1)[OF this skipped(3)]
    obtain cs where "cwd st' = cwd st1" "trace st' = trace st1 @ map GetApiKey cs" by blast
    with applyApiKeyInfo_frame(1,2)[OF skipped(2)] show ?thesis
      by (simp add: exI[of _ "(profileCandidates ctx ! n) # cs"])
  qed
qed

lemma advanceFrom_True:
  "advanceFrom env ctx n st = (Inr True, st') \<Longrightarrow>
     n \<le> profileIndex st' \<and> attemptedThinking st' = {} \<and> thinkLevel st' = initialThinkLevel ctx
     \<and> cred_ok env ctx (profileIndex st') (lastProfileId st')"
proof (induction "length (profileCandidates ctx) - n" arbitrary: n st)
  case 0
  from "0.prems" show ?case
    by (cases rule: advanceFrom_cases) (use 0 in simp_all)
next
  case (Suc k)
  from Suc.prems show ?case
  proof (cases rule: advanceFrom_cases)
    case (resolved st1)
    from applyApiKeyInfo_ok[OF resolved(2)] resolved(1,4) show ?thesis
      by (auto simp: cred_ok_def)
  next
    case (skipped err st1)
    from Suc.hyps(2) have "k = length (profileCandidates ctx) - (n + 1)" by simp
    from Suc.hyps(1)[OF this skipped(3)] show ?thesis by simp
  qed simp_all
qed

lemma advanceFrom_other:
  "advanceFrom env ctx n st = (r, st') \<Longrightarrow> r \<noteq> Inr True \<Longrightarrow>
     profileIndex st' = profileIndex st \<and> attemptedThinking st' = attemptedThinking st
     \<and> thinkLevel st' = thinkLevel st \<and> lastProfileId st' = lastProfileId st"
proof (induction "length (profileCandidates ctx) - n" arbitrary: n st)
  case 0
  from "0.prems"(1) show ?case
    by (cases rule: advanceFrom_cases) (use 0 in simp_all)
next
  case (Suc k)
  from Suc.prems(1) show ?case
  proof (cases rule: advanceFrom_cases)
    case exhausted
    then show ?thesis by simp
  next
    case (resolved st1)
    with Suc.prems(2) show ?thesis by simp
  next
    case (pinned err)
    from applyApiKeyInfo_frame[OF pinned(2)] applyApiKeyInfo_failed[OF pinned(2)]
    show ?thesis by simp
  next
    case (skipped err st1)
    from Suc.hyps(2) have "k = length (profileCandidates ctx) - (n + 1)" by simp
    from Suc.hyps(1)[OF this skipped(3) Suc.prems(2)]
      applyApiKeyInfo_frame[OF skipped(2)] applyApiKeyInfo_failed[OF skipped(2)]
    show ?thesis by simp
  qed
qed

lemma advanceAuthProfile_exit:
  assumes "advanceAuthProfile env ctx st = (r, st')"
  shows "cwd st' = cwd st" and "attempt_events (trace st') = attempt_events (trace st)"
    and "r = Inr True \<Longrightarrow> rotated env ctx st st'"
    and "r \<noteq> Inr True \<Longrightarrow> profileIndex st' = profileIndex st \<and> attemptedThinking st' = attemptedThinking st
           \<and> thinkLevel st' = thinkLevel st \<and> lastProfileId st' = lastProfileId st"
proof -
  from assms have a: "advanceFrom env ctx (profileIndex st + 1) st = (r, st')"
    by (simp add: advanceAuthProfile_def)
  from advanceFrom_frame[OF a] show "cwd st' = cwd st" and "attempt_events (trace st') = attempt_events (trace st)"
    by auto
  show "r = Inr True \<Longrightarrow> rotated env ctx st st'"
    using advanceFrom_True[of env ctx "profileIndex st + 1" st st'] a by (simp add: rotated_def)
  show "r \<noteq> Inr True \<Longrightarrow> profileIndex st' = profileIndex st \<and> attemptedThinking st' = attemptedThinking st
           \<and> thinkLevel st' = thinkLevel st \<and> lastProfileId st' = lastProfileId st"
    using advanceFrom_other[OF a] by simp
qed

lemma runEmbeddedAttempt_exit:
  assumes "runEmbeddedAttempt env st = (r, st')"
  shows "cwd st' = cwd st"
    and "attempt_events (trace st') = attempt_events (trace st) @ [(profileIndex st, lastProfileId st, thinkLevel st)]"
    and "profileIndex st' = profileIndex st" and "attemptedThinking st' = attemptedThinking st"
    and "thinkLevel st' = thinkLevel st" and "lastProfileId st' = lastProfileId st"
  using assms
  by (auto simp: runEmbeddedAttempt_def emit_def chdir_def Let_def split: attempt_outcome.splits)

subsection \<open>Exits of the paths of the loop body\<close>

lemma promptFallback_exit: "path_exit env ctx st (promptFallback env perr txt st)"
  by (auto simp: path_exit_def promptFallback_def downgraded_def split: option.splits)

lemma finishRun_exit: "path_exit env ctx st (finishRun env ctx attempt st)"
  by (simp add: path_exit_def finishRun_def Let_def emit_def)

lemma path_exit_trans:
  assumes "cwd st1 = cwd st" and "attempt_events (trace st1) = attempt_events (trace st)"
    and "profileIndex st1 = profileIndex st" and "attemptedThinking st1 = attemptedThinking st"
    and "lastProfileId st1 = lastProfileId st"
    and "path_exit env ctx st1 out"
  shows "path_exit env ctx st out"
  using assms by (auto simp: path_exit_def downgraded_def rotated_def)

lemma rotateExit_exit:
  assumes "advanceAuthProfile env ctx st = adv"
  shows "path_exit env ctx st (rotateExit env ctx attempt adv)"
proof -
  obtain r st2 where adv: "adv = (r, st2)" by (cases adv)
  note ex = advanceAuthProfile_exit[OF assms[unfolded adv]]
  show ?thesis
  proof (cases r)
    case (Inl err)
    with adv ex show ?thesis by (simp add: rotateExit_def path_exit_def)
  next
    case (Inr b)
    show ?thesis
    proof (cases b)
      case True
      with Inr adv ex show ?thesis by (simp add: rotateExit_def path_exit_def)
    next
      case False
      with Inr have ne: "r \<noteq> Inr True" by simp
      have "path_exit env ctx st (finishRun env ctx attempt st2)"
        by (rule path_exit_trans[OF ex(1) ex(2) _ _ _ finishRun_exit]) (simp_all add: ex(4)[OF ne])
      with Inr False adv ex show ?thesis
        by (simp add: rotateExit_def path_exit_def)
    qed
  qed
qed

lemma recordRotationFailure_frame:
  "cwd (recordRotationFailure env attempt st) = cwd st"
  "attempt_events (trace (recordRotationFailure env attempt st)) = attempt_events (trace st)"
  "profileIndex (recordRotationFailure env attempt st) = profileIndex st"
  "attemptedThinking (recordRotationFailure env attempt st) = attemptedThinking st"
  "lastProfileId (recordRotationFailure env attempt st) = lastProfileId st"
  "thinkLevel (recordRotationFailure env attempt st) = thinkLevel st"
  by (simp_all add: recordRotationFailure_def markAuthProfileFailure_def emit_def Let_def)

lemma rotatePath_exit: "path_exit env ctx st (rotatePath env ctx attempt st)"
  unfolding rotatePath_def
  by (rule path_exit_trans[OF _ _ _ _ _ rotateExit_exit[OF refl]])
     (simp_all add: recordRotationFailure_frame)

lemma completedPath_exit: "path_exit env ctx st (completedPath env ctx attempt st)"
proof -
  let ?fb = "pickFallbackThinkingLevel (helpers env)
               (Option.bind (lastAssistant attempt) errorMessage) (attemptedThinking st)"
  show ?thesis
  proof (cases "?fb \<noteq> None \<and> \<not> aborted attempt")
    case True
    then obtain l where l: "?fb = Some l" by auto
    then have "path_exit env ctx st (Continue, st\<lparr>thinkLevel := l\<rparr>)"
      by (auto simp: path_exit_def downgraded_def)
    with True l show ?thesis by (simp add: completedPath_def)
  next
    case False
    then have "completedPath env ctx attempt st =
                 (if (\<not> aborted attempt \<and> isFailoverAssistantError (helpers env) (lastAssistant attempt))
                      \<or> timedOut attempt
                  then rotatePath env ctx attempt st else finishRun env ctx attempt st)"
      by (simp only: completedPath_def Let_def if_False)
    then show ?thesis
      using rotatePath_exit[of env ctx st attempt] finishRun_exit[of env ctx st attempt]
      by simp
  qed
qed

lemma promptErrorPath_exit: "path_exit env ctx st (promptErrorPath env ctx attempt perr st)"
proof -
  let ?txt = "describeUnknownError (helpers env) perr"
  let ?reason = "classifyFailoverReason (helpers env) ?txt"
  let ?st1 = "(if truthy ?reason \<and> ?reason \<noteq> Some ''timeout'' \<and> truthy (lastProfileId st)
               then markAuthProfileFailure (the (lastProfileId st)) (the ?reason) st else st)"
  have fr: "cwd ?st1 = cwd st" "attempt_events (trace ?st1) = attempt_events (trace st)"
    "profileIndex ?st1 = profileIndex st" "attemptedThinking ?st1 = attemptedThinking st"
    "lastProfileId ?st1 = lastProfileId st"
    by (simp_all add: markAuthProfileFailure_def emit_def)
  have fb: "path_exit env ctx st (promptFallback env perr ?txt ?st1)"
    by (rule path_exit_trans[OF fr promptFallback_exit])
  have adv: "path_exit env ctx st
               (case advanceAuthProfile env ctx ?st1 of
                  (Inl err, st2) \<Rightarrow> (Throw (Rethrown err), st2)
                | (Inr advanced, st2) \<Rightarrow>
                    if advanced then (Continue, st2) else promptFallback env perr ?txt st2)"
  proof -
    obtain r st2 where a: "advanceAuthProfile env ctx ?st1 = (r, st2)"
      by (cases "advanceAuthProfile env ctx ?st1")
    note ex = advanceAuthProfile_exit[OF a]
    show ?thesis
    proof (cases r)
      case (Inl err)
      with a ex fr show ?thesis by (simp add: path_exit_def)
    next
      case (Inr b)
      show ?thesis
      proof (cases b)
        case True
        with Inr a ex fr show ?thesis by (simp add: path_exit_def rotated_def)
      next
        case False
        with Inr have ne: "r \<noteq> Inr True" by simp
        have "path_exit env ctx ?st1 (promptFallback env perr ?txt st2)"
          by (rule path_exit_trans[OF ex(1) ex(2) _ _ _ promptFallback_exit]) (simp_all add: ex(4)[OF ne])
        then have "path_exit env ctx st (promptFallback env perr ?txt st2)"
          by (rule path_exit_trans[OF fr])
        with Inr False a show ?thesis by simp
      qed
    qed
  qed
  have ret: "path_exit env ctx st (Return (contextOverflowResult env ctx attempt ?txt), st)"
    by (simp add: path_exit_def contextOverflowResult_def Let_def)
  show ?thesis
  proof (cases "isContextOverflowError (helpers env) ?txt")
    case True
    then have "promptErrorPath env ctx attempt perr st =
                 (Return (contextOverflowResult env ctx attempt ?txt), st)"
      by (simp only: promptErrorPath_def Let_def if_True)
    then show ?thesis by (simp only: ret)
  next
    case False
    show ?thesis
    proof (cases "isFailoverErrorMessage (helpers env) ?txt \<and> ?reason \<noteq> Some ''timeout''")
      case rot: True
      then have c: "(isFailoverErrorMessage (helpers env) ?txt \<and> ?reason \<noteq> Some ''timeout'') = True"
        by blast
      have "promptErrorPath env ctx attempt perr st =
                 (case advanceAuthProfile env ctx ?st1 of
                  (Inl err, st2) \<Rightarrow> (Throw (Rethrown err), st2)
                | (Inr advanced, st2) \<Rightarrow>
                    if advanced then (Continue, st2) else promptFallback env perr ?txt st2)"
        by (simp only: promptErrorPath_def Let_def False c if_True if_False)
      then show ?thesis by (simp only: adv)
    next
      case norot: False
      then have c: "(isFailoverErrorMessage (helpers env) ?txt \<and> ?reason \<noteq> Some ''timeout'') = False"
        by blast
      have "promptErrorPath env ctx attempt perr st = promptFallback env perr ?txt ?st1"
        by (simp only: promptErrorPath_def Let_def False c if_True if_False)
      then show ?thesis by (simp only: fb)
    qed
  qed
qed

subsection \<open>One pass of the loop\<close>

lemma loopBody_unfold:
  "loopBody env ctx st =
     (case mkdirWorkspace (world env) (attempts_made (trace st)) of
        Some err \<Rightarrow> (Throw (Rethrown err), emit Mkdir (entered st))
      | None \<Rightarrow>
          (case runEmbeddedAttempt env (emit Mkdir (entered st)) of
             (Inl err, st1) \<Rightarrow> (Throw (Rethrown err), st1)
           | (Inr attempt, st1) \<Rightarrow>
               (case promptError attempt of
                  Some perr \<Rightarrow>
                    if \<not> aborted attempt then promptErrorPath env ctx attempt perr st1
                    else completedPath env ctx attempt st1
                | None \<Rightarrow> completedPath env ctx attempt st1)))"
  unfolding loopBody_def entered_def Let_def by simp

lemma entered_frame [simp]:
  "cwd (entered st) = cwd st" "trace (entered st) = trace st" "profileIndex (entered st) = profileIndex st"
  "thinkLevel (entered st) = thinkLevel st" "lastProfileId (entered st) = lastProfileId st"
  "attemptedThinking (entered st) = insert (thinkLevel st) (attemptedThinking st)"
  by (simp_all add: entered_def)

lemma emit_frame [simp]:
  "cwd (emit e st) = cwd st" "trace (emit e st) = trace st @ [e]" "profileIndex (emit e st) = profileIndex st"
  "thinkLevel (emit e st) = thinkLevel st" "lastProfileId (emit e st) = lastProfileId st"
  "attemptedThinking (emit e st) = attemptedThinking st"
  by (simp_all add: emit_def)

lemma loopBody_exit:
  assumes "loopBody env ctx st = (x, st')"
  shows "cwd st' = cwd st"
    and "attempt_events (trace st') = attempt_events (trace st)
         \<or> attempt_events (trace st') =
             attempt_events (trace st) @ [(profileIndex st, lastProfileId st, thinkLevel st)]"
    and "x = Continue \<Longrightarrow>
           attempt_events (trace st') =
             attempt_events (trace st) @ [(profileIndex st, lastProfileId st, thinkLevel st)]
           \<and> (downgraded env (entered st) st' \<or> rotated env ctx st st')"
proof -
  let ?new = "(profileIndex st, lastProfileId st, thinkLevel st)"
  have "cwd st' = cwd st
        \<and> (attempt_events (trace st') = attempt_events (trace st)
            \<or> attempt_events (trace st') = attempt_events (trace st) @ [?new])
        \<and> (x = Continue \<longrightarrow>
             attempt_events (trace st') = attempt_events (trace st) @ [?new]
             \<and> (downgraded env (entered st) st' \<or> rotated env ctx st st'))"
  proof (cases "mkdirWorkspace (world env) (attempts_made (trace st))")
    case (Some err)
    with assms have "x = Throw (Rethrown err)" "st' = emit Mkdir (entered st)"
      by (simp_all add: loopBody_unfold)
    then show ?thesis by simp
  next
    case None
    obtain r st1 where ra: "runEmbeddedAttempt env (emit Mkdir (entered st)) = (r, st1)"
      by (cases "runEmbeddedAttempt env (emit Mkdir (entered st))")
    note ex = runEmbeddedAttempt_exit[OF ra]
    show ?thesis
    proof (cases r)
      case (Inl err)
      with None ra assms have "x = Throw (Rethrown err)" "st' = st1"
        by (simp_all add: loopBody_unfold)
      with ex show ?thesis by simp
    next
      case (Inr attempt)
      let ?path = "(case promptError attempt of
                  Some perr \<Rightarrow>
                    if \<not> aborted attempt then promptErrorPath env ctx attempt perr st1
                    else completedPath env ctx attempt st1
                | None \<Rightarrow> completedPath env ctx attempt st1)"
      have pe: "path_exit env ctx st1 ?path"
        using promptErrorPath_exit[of env ctx st1 attempt] completedPath_exit[of env ctx st1 attempt]
        by (cases "promptError attempt") simp_all
      from None ra Inr assms have "?path = (x, st')"
        by (simp add: loopBody_unfold)
      with pe have p: "path_exit env ctx st1 (x, st')" by simp
      from p ex show ?thesis
        by (auto simp: path_exit_def downgraded_def rotated_def)
    qed
  qed
  then show "cwd st' = cwd st"
    and "attempt_events (trace st') = attempt_events (trace st)
         \<or> attempt_events (trace st') = attempt_events (trace st) @ [?new]"
    and "x = Continue \<Longrightarrow>
           attempt_events (trace st') = attempt_events (trace st) @ [?new]
           \<and> (downgraded env (entered st) st' \<or> rotated env ctx st st')"
    by blast+
qed

subsection \<open>The thinking ladder bounds the loop\<close>

lemma specPickFallbackThinkingLevel_fresh:
  "specPickFallbackThinkingLevel unsupported m att = Some l \<Longrightarrow> l \<notin> att"
  by (auto simp: specPickFallbackThinkingLevel_def find_Some_iff split: option.splits if_splits)

lemma UNIV_think_level: "(UNIV :: think_level set) = set ladder"
proof -
  have "l \<in> set ladder" for l by (cases l) (simp_all add: ladder_def)
  then show ?thesis by blast
qed

lemma levels_subset: "(A :: think_level set) \<subseteq> set ladder"
  using UNIV_think_level by blast

lemma finite_levels [simp]: "finite (A :: think_level set)"
  by (rule finite_subset[OF levels_subset]) (rule finite_set)

lemma card_levels: "card (A :: think_level set) \<le> length ladder"
proof -
  have "card A \<le> card (set ladder)"
    by (rule card_mono[OF finite_set levels_subset])
  also have "\<dots> \<le> length ladder" by (rule card_length)
  finally show ?thesis .
qed

lemma fresh_level_card: "(l :: think_level) \<notin> A \<Longrightarrow> Suc (card A) \<le> length ladder"
  using card_levels[of "insert l A"] by simp

lemma ladder_le_remaining_product:
  "i < n \<Longrightarrow> length ladder \<le> (n - i) * length ladder"
proof -
  assume "i < n"
  then have "Suc 0 \<le> n - i" by arith
  then have "Suc 0 * length ladder \<le> (n - i) * length ladder" by (rule mult_le_mono1)
  then show ?thesis by simp
qed

lemma attempt_keys_append [simp]: "attempt_keys (xs @ ys) = attempt_keys xs @ attempt_keys ys"
  by (simp add: attempt_keys_def)

lemma length_attempt_keys [simp]: "length (attempt_keys tr) = attempts_made tr"
  by (simp add: attempt_keys_def attempts_made_def)

lemma ladder_step:
  assumes fresh: "\<forall>m att l. pickFallbackThinkingLevel (helpers env) m att = Some l \<longrightarrow> l \<notin> att"
    and inv: "ladder_inv ctx st"
    and body: "loopBody env ctx st = (Continue, st')"
  shows "ladder_inv ctx st'" and "remaining ctx st' < remaining ctx st"
proof -
  let ?n = "length (profileCandidates ctx)"
  let ?L = "length ladder"
  from loopBody_exit(3)[OF body refl]
  have ev: "attempt_events (trace st') =
              attempt_events (trace st) @ [(profileIndex st, lastProfileId st, thinkLevel st)]"
    and how: "downgraded env (entered st) st' \<or> rotated env ctx st st'" by blast+
  from ev have keys: "attempt_keys (trace st') = attempt_keys (trace st) @ [(profileIndex st, thinkLevel st)]"
    by (simp add: attempt_keys_def)
  from inv have idx: "profileIndex st < ?n" and lvl: "thinkLevel st \<notin> attemptedThinking st"
    and old: "\<And>k. k \<in> set (attempt_keys (trace st)) \<Longrightarrow>
                fst k < profileIndex st \<or> (fst k = profileIndex st \<and> snd k \<in> attemptedThinking st)"
    and dist: "distinct (attempt_keys (trace st))"
    by (auto simp: ladder_inv_def)
  have new: "(profileIndex st, thinkLevel st) \<notin> set (attempt_keys (trace st))"
    using old[of "(profileIndex st, thinkLevel st)"] lvl by auto
  have dist': "distinct (attempt_keys (trace st'))"
    using keys dist new by simp
  define P where "P = (?n - profileIndex st) * ?L"
  have c: "Suc (card (attemptedThinking st)) \<le> ?L" by (rule fresh_level_card[OF lvl])
  have L: "?L \<le> P" unfolding P_def by (rule ladder_le_remaining_product[OF idx])
  have rem: "remaining ctx st = P - card (attemptedThinking st)"
    by (simp add: remaining_def P_def)
  from how show "ladder_inv ctx st'"
  proof
    assume d: "downgraded env (entered st) st'"
    then obtain m where "pickFallbackThinkingLevel (helpers env) m
        (insert (thinkLevel st) (attemptedThinking st)) = Some (thinkLevel st')"
      by (auto simp: downgraded_def)
    from fresh[rule_format, OF this] have "thinkLevel st' \<notin> insert (thinkLevel st) (attemptedThinking st)" .
    with d idx keys dist' old show ?thesis
      by (auto simp: ladder_inv_def downgraded_def)
  next
    assume r: "rotated env ctx st st'"
    with idx keys dist' old show ?thesis
      by (fastforce simp: ladder_inv_def rotated_def cred_ok_def)
  qed
  from how show "remaining ctx st' < remaining ctx st"
  proof
    assume d: "downgraded env (entered st) st'"
    then obtain m where "pickFallbackThinkingLevel (helpers env) m
        (insert (thinkLevel st) (attemptedThinking st)) = Some (thinkLevel st')"
      by (auto simp: downgraded_def)
    from fresh[rule_format, OF this] have "thinkLevel st' \<notin> insert (thinkLevel st) (attemptedThinking st)" .
    from fresh_level_card[OF this] lvl
    have two: "Suc (Suc (card (attemptedThinking st))) \<le> ?L" by simp
    from d lvl have "remaining ctx st' = P - Suc (card (attemptedThinking st))"
      by (simp add: downgraded_def remaining_def P_def)
    with rem two L show ?thesis by linarith
  next
    assume r: "rotated env ctx st st'"
    then have i: "profileIndex st < profileIndex st'" and e: "attemptedThinking st' = {}"
      and b: "profileIndex st' < ?n"
      by (simp_all add: rotated_def cred_ok_def)
    define P' where "P' = (?n - profileIndex st') * ?L"
    from i b have "Suc (?n - profileIndex st') \<le> ?n - profileIndex st" by arith
    then have "Suc (?n - profileIndex st') * ?L \<le> (?n - profileIndex st) * ?L"
      by (rule mult_le_mono1)
    then have "P' + ?L \<le> P" by (simp add: P_def P'_def)
    moreover from e have "remaining ctx st' = P'" by (simp add: remaining_def P'_def)
    ultimately show ?thesis using rem c by linarith
  qed
qed

lemma remaining_pos: "ladder_inv ctx st \<Longrightarrow> 0 < remaining ctx st"
proof -
  assume inv: "ladder_inv ctx st"
  then have idx: "profileIndex st < length (profileCandidates ctx)"
    and lvl: "thinkLevel st \<notin> attemptedThinking st" by (simp_all add: ladder_inv_def)
  have "length ladder \<le> (length (profileCandidates ctx) - profileIndex st) * length ladder"
    by (rule ladder_le_remaining_product[OF idx])
  with fresh_level_card[OF lvl] show ?thesis unfolding remaining_def by linarith
qed

lemma ladder_last:
  assumes inv: "ladder_inv ctx st" and body: "loopBody env ctx st = (x, st')"
  shows "distinct (attempt_keys (trace st'))"
    and "attempts_made (trace st') \<le> Suc (attempts_made (trace st))"
proof -
  from inv have lvl: "thinkLevel st \<notin> attemptedThinking st"
    and old: "\<And>k. k \<in> set (attempt_keys (trace st)) \<Longrightarrow>
                fst k < profileIndex st \<or> (fst k = profileIndex st \<and> snd k \<in> attemptedThinking st)"
    and dist: "distinct (attempt_keys (trace st))"
    by (auto simp: ladder_inv_def)
  have new: "(profileIndex st, thinkLevel st) \<notin> set (attempt_keys (trace st))"
    using old[of "(profileIndex st, thinkLevel st)"] lvl by auto
  from loopBody_exit(2)[OF body] dist new show "distinct (attempt_keys (trace st'))"
    by (auto simp: attempt_keys_def)
  from loopBody_exit(2)[OF body] show "attempts_made (trace st') \<le> Suc (attempts_made (trace st))"
    by (auto simp: attempts_made_def)
qed

lemma runLoop_terminates:
  assumes fresh: "\<forall>m att l. pickFallbackThinkingLevel (helpers env) m att = Some l \<longrightarrow> l \<notin> att"
  shows "ladder_inv ctx st \<Longrightarrow> remaining ctx st \<le> fuel \<Longrightarrow>
     \<exists>res st'. runLoop fuel env ctx st = Some (res, st')
        \<and> distinct (attempt_keys (trace st'))
        \<and> attempts_made (trace st') \<le> attempts_made (trace st) + remaining ctx st"
proof (induction fuel arbitrary: st)
  case 0
  with remaining_pos[of ctx st] show ?case by simp
next
  case (Suc fuel)
  obtain x st1 where body: "loopBody env ctx st = (x, st1)" by (cases "loopBody env ctx st")
  note last = ladder_last[OF Suc.prems(1) body]
  from remaining_pos[OF Suc.prems(1)] last(2)
  have one: "attempts_made (trace st1) \<le> attempts_made (trace st) + remaining ctx st" by simp
  show ?case
  proof (cases x)
    case Continue
    note step = ladder_step[OF fresh Suc.prems(1) body[unfolded Continue]]
    from step(2) Suc.prems(2) have "remaining ctx st1 \<le> fuel" by simp
    from Suc.IH[OF step(1) this] obtain res st' where
      r: "runLoop fuel env ctx st1 = Some (res, st')" "distinct (attempt_keys (trace st'))"
        "attempts_made (trace st') \<le> attempts_made (trace st1) + remaining ctx st1" by blast
    from r(3) last(2) step(2)
    have "attempts_made (trace st') \<le> attempts_made (trace st) + remaining ctx st" by simp
    with r(1,2) body Continue show ?thesis by simp
  next
    case (Return result)
    with body last(1) one show ?thesis by simp
  next
    case (Throw err)
    with body last(1) one show ?thesis by simp
  qed
qed

subsection \<open>Invariants of the loop and entry into it\<close>

lemma runLoop_cwd:
  "runLoop fuel env ctx st = Some (res, st') \<Longrightarrow> cwd st' = cwd st"
proof (induction fuel arbitrary: st)
  case 0
  then show ?case by simp
next
  case (Suc fuel)
  obtain x st1 where body: "loopBody env ctx st = (x, st1)" by (cases "loopBody env ctx st")
  note c = loopBody_exit(1)[OF body]
  show ?case
  proof (cases x)
    case Continue
    with Suc.prems body have "runLoop fuel env ctx st1 = Some (res, st')" by simp
    from Suc.IH[OF this] c show ?thesis by simp
  next
    case (Return result)
    with Suc.prems body c show ?thesis by simp
  next
    case (Throw err)
    with Suc.prems body c show ?thesis by simp
  qed
qed

lemma traversal_step:
  assumes inv: "traversal_inv env ctx st" and body: "loopBody env ctx st = (Continue, st')"
  shows "traversal_inv env ctx st'"
proof -
  from loopBody_exit(3)[OF body refl]
  have ev: "attempt_events (trace st') =
              attempt_events (trace st) @ [(profileIndex st, lastProfileId st, thinkLevel st)]"
    and how: "downgraded env (entered st) st' \<or> rotated env ctx st st'" by blast+
  from inv have cur: "cred_ok env ctx (profileIndex st) (lastProfileId st)"
    and old: "\<And>e. e \<in> set (attempt_events (trace st)) \<Longrightarrow>
                 fst e \<le> profileIndex st \<and> cred_ok env ctx (fst e) (fst (snd e))"
    and srt: "sorted (map fst (attempt_events (trace st)))"
    by (auto simp: traversal_inv_def)
  have srt': "sorted (map fst (attempt_events (trace st')))"
    using ev srt old by (auto simp: sorted_append)
  from how show ?thesis
  proof
    assume "downgraded env (entered st) st'"
    with ev cur old srt' show ?thesis
      by (auto simp: traversal_inv_def downgraded_def)
  next
    assume "rotated env ctx st st'"
    with ev cur old srt' show ?thesis
      by (fastforce simp: traversal_inv_def rotated_def)
  qed
qed

lemma traversal_last:
  assumes inv: "traversal_inv env ctx st" and body: "loopBody env ctx st = (x, st')"
  shows "sorted (map fst (attempt_events (trace st')))"
    and "\<forall>e \<in> set (attempt_events (trace st')). cred_ok env ctx (fst e) (fst (snd e))"
proof -
  from inv have cur: "cred_ok env ctx (profileIndex st) (lastProfileId st)"
    and old: "\<And>e. e \<in> set (attempt_events (trace st)) \<Longrightarrow>
                 fst e \<le> profileIndex st \<and> cred_ok env ctx (fst e) (fst (snd e))"
    and srt: "sorted (map fst (attempt_events (trace st)))"
    by (auto simp: traversal_inv_def)
  from loopBody_exit(2)[OF body] srt old show "sorted (map fst (attempt_events (trace st')))"
    by (auto simp: sorted_append)
  from loopBody_exit(2)[OF body] cur old
  show "\<forall>e \<in> set (attempt_events (trace st')). cred_ok env ctx (fst e) (fst (snd e))"
    by auto
qed

lemma runLoop_traversal:
  "traversal_inv env ctx st \<Longrightarrow> runLoop fuel env ctx st = Some (res, st') \<Longrightarrow>
     sorted (map fst (attempt_events (trace st')))
     \<and> (\<forall>e \<in> set (attempt_events (trace st')). cred_ok env ctx (fst e) (fst (snd e)))"
proof (induction fuel arbitrary: st)
  case 0
  then show ?case by simp
next
  case (Suc fuel)
  obtain x st1 where body: "loopBody env ctx st = (x, st1)" by (cases "loopBody env ctx st")
  note last = traversal_last[OF Suc.prems(1) body]
  show ?case
  proof (cases x)
    case Continue
    with Suc.prems(2) body have r: "runLoop fuel env ctx st1 = Some (res, st')" by simp
    from Suc.IH[OF traversal_step[OF Suc.prems(1) body[unfolded Continue]] r] show ?thesis .
  next
    case (Return result)
    with Suc.prems(2) body last show ?thesis by simp
  next
    case (Throw err)
    with Suc.prems(2) body last show ?thesis by simp
  qed
qed

lemma candidatesOf_nonempty: "0 < length (candidatesOf order)"
  by (simp add: candidatesOf_def)

lemma buildCtx_candidates [simp]:
  "profileCandidates (buildCtx env (resolvedProvider env) mid mdl) = configuredCandidates env"
  by (simp add: buildCtx_def configuredCandidates_def Let_def)

lemma sorted_distinct_remdups_adj: "sorted (xs :: nat list) \<Longrightarrow> distinct (remdups_adj xs)"
proof (induction xs rule: remdups_adj.induct)
  case (3 x y xs)
  then show ?case by (cases "x = y") auto
qed simp_all

lemma runWithModel_cases:
  assumes "runWithModel fuel env prov mid mdl dir = out"
  obtains (early) err st where "out = Some (Inl err, st)" "attempt_events (trace st) = []" "cwd st = dir"
  | (loop) st1 where "out = guardedLoop fuel env (buildCtx env prov mid mdl) dir st1"
      "loop_entry env (buildCtx env prov mid mdl) dir st1"
proof -
  let ?ctx = "buildCtx env prov mid mdl"
  let ?st0 = "initialState ?ctx dir"
  have st0: "cwd ?st0 = dir" "trace ?st0 = []" "attemptedThinking ?st0 = {}" "profileIndex ?st0 = 0"
    by (simp_all add: initialState_def)
  have ne: "0 < length (profileCandidates ?ctx)"
    using candidatesOf_nonempty by (simp add: buildCtx_def Let_def del: length_greater_0_conv)
  show thesis
  proof (cases "truthy (explicitProfileId ?ctx) \<and> the (explicitProfileId ?ctx) \<notin>
                  set (resolveAuthProfileOrder (world env) prov (explicitProfileId ?ctx))")
    case True
    then have "out = Some (Inl (PlainError (''Auth profile '' @ [CHR 0x22] @ the (explicitProfileId ?ctx) @ [CHR 0x22] @
                                   '' is not configured for '' @ prov @ ''.'')), ?st0)"
      using assms by (simp add: runWithModel_def Let_def)
    then show thesis using st0 by (intro early) simp_all
  next
    case False
    then have c: "(truthy (explicitProfileId ?ctx) \<and> the (explicitProfileId ?ctx) \<notin>
                  set (resolveAuthProfileOrder (world env) prov (explicitProfileId ?ctx))) = False"
      by blast
    obtain a st1 where ap: "applyApiKeyInfo env ?ctx (profileCandidates ?ctx ! 0) ?st0 = (a, st1)"
      by (cases "applyApiKeyInfo env ?ctx (profileCandidates ?ctx ! 0) ?st0")
    note fr = applyApiKeyInfo_frame[OF ap]
    have out1: "out = (case (a, st1) of
              (None, st1) \<Rightarrow> guardedLoop fuel env ?ctx dir st1
            | (Some err, st1) \<Rightarrow>
                if profileCandidates ?ctx ! profileIndex st1 = explicitProfileId ?ctx then
                  Some (Inl (Rethrown err), st1)
                else
                  (case advanceAuthProfile env ?ctx st1 of
                     (Inl err', st2) \<Rightarrow> Some (Inl (Rethrown err'), st2)
                   | (Inr advanced, st2) \<Rightarrow>
                       if \<not> advanced then Some (Inl (Rethrown err), st2)
                       else guardedLoop fuel env ?ctx dir st2))"
      using assms[symmetric] unfolding runWithModel_def Let_def
      by (simp only: c if_False st0 ap)
    show thesis
    proof (cases a)
      case None
      from applyApiKeyInfo_ok[OF ap[unfolded None]] ne fr st0
      have "loop_entry env ?ctx dir st1"
        by (auto simp: loop_entry_def cred_ok_def)
      moreover from out1 None have "out = guardedLoop fuel env ?ctx dir st1" by simp
      ultimately show thesis by (intro loop)
    next
      case (Some err)
      show thesis
      proof (cases "profileCandidates ?ctx ! profileIndex st1 = explicitProfileId ?ctx")
        case True
        with out1 Some have "out = Some (Inl (Rethrown err), st1)" by simp
        then show thesis using fr st0 by (intro early) simp_all
      next
        case other: False
        obtain r st2 where adv: "advanceAuthProfile env ?ctx st1 = (r, st2)"
          by (cases "advanceAuthProfile env ?ctx st1")
        note ex = advanceAuthProfile_exit[OF adv]
        from ex(1,2) fr st0 have fr2: "cwd st2 = dir" "attempt_events (trace st2) = []" by simp_all
        show thesis
        proof (cases r)
          case (Inl err')
          with out1 Some other adv have "out = Some (Inl (Rethrown err'), st2)" by simp
          then show thesis using fr2 by (intro early) simp_all
        next
          case (Inr advanced)
          show thesis
          proof (cases advanced)
            case False
            with out1 Some other adv Inr have "out = Some (Inl (Rethrown err), st2)" by simp
            then show thesis using fr2 by (intro early) simp_all
          next
            case True
            with out1 Some other adv Inr have o: "out = guardedLoop fuel env ?ctx dir st2" by simp
            from ex(3) Inr True have "rotated env ?ctx st1 st2" by simp
            with fr2 have "loop_entry env ?ctx dir st2"
              by (simp add: loop_entry_def rotated_def)
            with o show thesis by (intro loop)
          qed
        qed
      qed
    qed
  qed
qed

lemma run_cases:
  assumes "runEmbeddedPiAgent fuel env dir = out"
  obtains (early) err st where "out = Some (Inl err, st)" "attempt_events (trace st) = []" "cwd st = dir"
  | (loop) mdl st1 where
      "out = guardedLoop fuel env (buildCtx env (resolvedProvider env) (resolvedModelId env) mdl) dir st1"
      "loop_entry env (buildCtx env (resolvedProvider env) (resolvedModelId env) mdl) dir st1"
proof -
  obtain m e where rm: "resolveModel (world env) (resolvedProvider env) (resolvedModelId env) = (m, e)"
    by (cases "resolveModel (world env) (resolvedProvider env) (resolvedModelId env)")
  show thesis
  proof (cases m)
    case None
    with rm assms[symmetric] show thesis
      by (intro early[of _ "untouched dir"]) (simp_all add: runEmbeddedPiAgent_def Let_def untouched_def)
  next
    case (Some mdl)
    show thesis
    proof (cases "shouldBlock (evaluateContextWindowGuard
              (resolveContextWindowInfo (world env) (resolvedProvider env) (resolvedModelId env)
                 (contextWindow mdl) (DEFAULT_CONTEXT_TOKENS (helpers env)))
              (CONTEXT_WINDOW_WARN_BELOW_TOKENS (helpers env)) (CONTEXT_WINDOW_HARD_MIN_TOKENS (helpers env)))")
      case True
      with rm Some assms[symmetric] show thesis
        by (intro early[of _ "untouched dir"]) (simp_all add: runEmbeddedPiAgent_def Let_def untouched_def)
    next
      case False
      with rm Some assms
      have "runWithModel fuel env (resolvedProvider env) (resolvedModelId env) mdl dir = out"
        by (simp add: runEmbeddedPiAgent_def Let_def)
      then show thesis
      proof (cases rule: runWithModel_cases)
        case (early err st)
        then show ?thesis by (intro that(1)) simp_all
      next
        case (loop st1)
        then show ?thesis by (intro that(2)) simp_all
      qed
    qed
  qed
qed

subsection \<open>Running the model on concrete collaborators\<close>

lemmas run_defs = runEmbeddedPiAgent_def runWithModel_def buildCtx_def resolvedProvider_def resolvedModelId_def
  untouched_def initialState_def candidatesOf_def guardedLoop_def loopBody_def completedPath_def
  rotatePath_def rotateExit_def recordRotationFailure_def finishRun_def promptErrorPath_def
  promptFallback_def contextOverflowResult_def
  exhaustedFailoverError_def advanceAuthProfile_def applyApiKeyInfo_def runEmbeddedAttempt_def
  buildAttemptResult_def findLastAssistant_def attemptFlags_def abortRun_def
  evaluateContextWindowGuard_def markAuthProfileFailure_def emit_def chdir_def attempts_made_def
  attempt_events_def truthy_def or_else_def trim_def is_space_def is_space2_def is_space3_def Let_def
  specPickFallbackThinkingLevel_def

lemma sample_run_returns:
  "\<exists>res st. runEmbeddedPiAgent 1 sample_env ''/home'' = Some (Inr res, st)"
  by (simp add: run_defs sample_defs advanceFrom.simps)

lemma guardedLoop_Some:
  "guardedLoop fuel env ctx dir st = Some (res, st') \<longleftrightarrow>
     (\<exists>st2. runLoop fuel env ctx st = Some (res, st2) \<and> st' = chdir dir st2)"
  by (cases "runLoop fuel env ctx st") (auto simp: guardedLoop_def)

lemma chdir_frame [simp]:
  "cwd (chdir dir st) = dir" "trace (chdir dir st) = trace st @ [Chdir dir]"
  by (simp_all add: chdir_def)

lemma rotating_run:
  "\<exists>res st. runEmbeddedPiAgent 2 rotating_env ''/home'' = Some (res, st)
      \<and> attempt_events (trace st) = [(0, Some ''p1'', Off), (1, Some ''p2'', Off)]"
  by (simp add: run_defs rotating_env_def sample_defs advanceFrom.simps numeral_2_eq_2)

subsection \<open>A completed attempt\<close>

lemma after_attempt_frame [simp]:
  "cwd (after_attempt ws st) = cwd st"
  "trace (after_attempt ws st) =
     trace st @ [Mkdir, RunAttempt (profileIndex st) (lastProfileId st) (thinkLevel st),
                 Chdir ws, Chdir (cwd st)]"
  "profileIndex (after_attempt ws st) = profileIndex st"
  "thinkLevel (after_attempt ws st) = thinkLevel st"
  "lastProfileId (after_attempt ws st) = lastProfileId st"
  "attemptedThinking (after_attempt ws st) = insert (thinkLevel st) (attemptedThinking st)"
  by (simp_all add: after_attempt_def chdir_def emit_def entered_def)

lemma runEmbeddedAttempt_completed:
  assumes "agentSession (world env) (attempts_made (trace st)) (lastProfileId st) (thinkLevel st)
             = Completed ws so"
  shows "runEmbeddedAttempt env (emit Mkdir (entered st)) =
           (Inr (buildAttemptResult env so), after_attempt ws st)"
  using assms
  by (simp add: runEmbeddedAttempt_def after_attempt_def Let_def attempts_made_def)

lemma loopBody_completed:
  assumes "mkdirWorkspace (world env) (attempts_made (trace st)) = None"
    and "agentSession (world env) (attempts_made (trace st)) (lastProfileId st) (thinkLevel st)
           = Completed ws so"
  shows "loopBody env ctx st =
           (case promptError (buildAttemptResult env so) of
              Some perr \<Rightarrow>
                if \<not> aborted (buildAttemptResult env so)
                then promptErrorPath env ctx (buildAttemptResult env so) perr (after_attempt ws st)
                else completedPath env ctx (buildAttemptResult env so) (after_attempt ws st)
            | None \<Rightarrow> completedPath env ctx (buildAttemptResult env so) (after_attempt ws st))"
  by (simp add: loopBody_unfold assms(1) runEmbeddedAttempt_completed[OF assms(2)])

lemma finishRun_trace:
  "finishRun env ctx attempt st = (x, st') \<Longrightarrow>
     (\<exists>res. x = Return res \<and> meta_aborted (meta res) = Some (aborted attempt) \<and> meta_error (meta res) = None)
     \<and> trace st' = trace st @ (if truthy (lastProfileId st)
                                then [MarkGood (provider ctx) (the (lastProfileId st)),
                                      MarkUsed (the (lastProfileId st))]
                                else [])
     \<and> lastProfileId st' = lastProfileId st"
  by (auto simp: finishRun_def Let_def emit_def)

subsection \<open>Results that carry no error tag\<close>

lemma buildAttemptResult_simps [simp]:
  "promptError (buildAttemptResult env so) = so_promptError so"
  "sessionIdUsed (buildAttemptResult env so) = so_sessionId so"
  "aborted (buildAttemptResult env so) = fst (attemptFlags (signalAborted so) (abortCalls so))"
  "timedOut (buildAttemptResult env so) = snd (attemptFlags (signalAborted so) (abortCalls so))"
  "lastAssistant (buildAttemptResult env so) = findLastAssistant (messagesSnapshot so)"
  by (simp_all add: buildAttemptResult_def Let_def)

lemma sample_state_session:
  "mkdirWorkspace (world env) (attempts_made (trace sample_state)) = mkdirWorkspace (world env) 0"
  "agentSession (world env) (attempts_made (trace sample_state)) (lastProfileId sample_state)
     (thinkLevel sample_state) = agentSession (world env) 0 (Some ''p1'') Off"
  by (simp_all add: sample_state_def attempts_made_def attempt_events_def)

lemma loopBody_return:
  assumes body: "loopBody env ctx st = (Return res, st')"
    and ok: "meta_error (meta res) = None" and pid: "truthy (lastProfileId st')"
  shows "\<exists>tr. trace st' = tr @ [MarkGood (provider ctx) (the (lastProfileId st')),
                                   MarkUsed (the (lastProfileId st'))]"
proof (cases "mkdirWorkspace (world env) (attempts_made (trace st))")
  case (Some err)
  with body show ?thesis by (simp add: loopBody_unfold)
next
  case None
  obtain r st1 where ra: "runEmbeddedAttempt env (emit Mkdir (entered st)) = (r, st1)"
    by (cases "runEmbeddedAttempt env (emit Mkdir (entered st))")
  show ?thesis
  proof (cases r)
    case (Inl err)
    with None ra body show ?thesis by (simp add: loopBody_unfold)
  next
    case (Inr attempt)
    let ?path = "(case promptError attempt of
                  Some perr \<Rightarrow>
                    if \<not> aborted attempt then promptErrorPath env ctx attempt perr st1
                    else completedPath env ctx attempt st1
                | None \<Rightarrow> completedPath env ctx attempt st1)"
    have pe: "path_exit env ctx st1 ?path"
      using promptErrorPath_exit[of env ctx st1 attempt] completedPath_exit[of env ctx st1 attempt]
      by (cases "promptError attempt") simp_all
    from None ra Inr body have "?path = (Return res, st')"
      by (simp add: loopBody_unfold)
    with pe have "path_exit env ctx st1 (Return res, st')" by simp
    with ok pid show ?thesis by (simp add: path_exit_def)
  qed
qed

lemma runLoop_return:
  "runLoop fuel env ctx st = Some (Inr res, st') \<Longrightarrow> meta_error (meta res) = None \<Longrightarrow>
   truthy (lastProfileId st') \<Longrightarrow>
     \<exists>tr. trace st' = tr @ [MarkGood (provider ctx) (the (lastProfileId st')),
                             MarkUsed (the (lastProfileId st'))]"
proof (induction fuel arbitrary: st)
  case 0
  then show ?case by simp
next
  case (Suc fuel)
  obtain x st1 where body: "loopBody env ctx st = (x, st1)" by (cases "loopBody env ctx st")
  show ?case
  proof (cases x)
    case Continue
    with Suc.prems(1) body have "runLoop fuel env ctx st1 = Some (Inr res, st')" by simp
    from Suc.IH[OF this Suc.prems(2,3)] show ?thesis .
  next
    case (Return result)
    with Suc.prems(1) body have "result = res" "st1 = st'" by simp_all
    with body Return have "loopBody env ctx st = (Return res, st')" by simp
    from loopBody_return[OF this Suc.prems(2,3)] show ?thesis .
  next
    case (Throw err)
    with Suc.prems(1) body show ?thesis by simp
  qed
qed

lemma buildCtx_provider [simp]: "provider (buildCtx env prov mid mdl) = prov"
  by (simp add: buildCtx_def Let_def)

lemma aborted_run:
  "\<exists>res st. runEmbeddedPiAgent 1 aborted_env ''/home'' = Some (Inr res, st)
      \<and> meta_error (meta res) = None \<and> meta_aborted (meta res) = Some True
      \<and> lastProfileId st = Some ''p1''"
  by (simp add: run_defs aborted_env_def sample_defs advanceFrom.simps)

subsection \<open>Rotation after a timeout\<close>

lemma completedPath_timedOut:
  assumes "timedOut attempt" and "aborted attempt"
  shows "completedPath env ctx attempt st = rotatePath env ctx attempt st"
  using assms by (simp add: completedPath_def Let_def)

lemma recordRotationFailure_timedOut:
  assumes "timedOut attempt" and "lastProfileId st = Some pid" and "pid \<noteq> []"
  shows "recordRotationFailure env attempt st = markAuthProfileFailure pid ''timeout'' st"
  using assms by (simp add: recordRotationFailure_def Let_def truthy_def)

lemma rotateExit_trace:
  "\<exists>rest. trace (snd (rotateExit env ctx attempt (advanceAuthProfile env ctx st))) = trace st @ rest"
proof -
  obtain r st2 where adv: "advanceAuthProfile env ctx st = (r, st2)"
    by (cases "advanceAuthProfile env ctx st")
  then have "advanceFrom env ctx (profileIndex st + 1) st = (r, st2)"
    by (simp add: advanceAuthProfile_def)
  from advanceFrom_frame[OF this] obtain cs where t2: "trace st2 = trace st @ map GetApiKey cs" by blast
  have "\<exists>rest. trace (snd (rotateExit env ctx attempt (r, st2))) = trace st2 @ rest"
    by (cases r) (auto simp: rotateExit_def finishRun_def Let_def emit_def)
  with t2 adv show ?thesis by auto
qed

subsection \<open>Exhausted rotation and pinned profiles\<close>

lemma lone_exhausted:
  "advanceAuthProfile env sample_ctx st = (Inr False, st)"
  by (simp add: advanceAuthProfile_def advanceFrom.simps sample_ctx_def)

subsection \<open>Prompt errors that are not context overflows\<close>

lemma trim_unicode:
  "trim [CHR 0xC2, CHR 0xA0, CHR 0x09, CHR ''p'', CHR 0x20, CHR ''1'', CHR 0x20, CHR 0xE2, CHR 0x80, CHR 0xA8,
         CHR 0xEF, CHR 0xBB, CHR 0xBF] = [CHR ''p'', CHR 0x20, CHR ''1'']"
  by (simp add: trim_def is_space_def is_space2_def is_space3_def)



subsection \<open>What a timed-out attempt leads to\<close>

lemma rotation_recorded_frame [simp]:
  "cwd (rotation_recorded env so ws st) = cwd st"
  "profileIndex (rotation_recorded env so ws st) = profileIndex st"
  "lastProfileId (rotation_recorded env so ws st) = lastProfileId st"
  by (simp_all add: rotation_recorded_def recordRotationFailure_frame)

lemma rotation_recorded_timeout_trace:
  assumes "timedOut (buildAttemptResult env so)"
  shows "trace (rotation_recorded env so ws st) =
           trace st @ [Mkdir, RunAttempt (profileIndex st) (lastProfileId st) (thinkLevel st),
                       Chdir ws, Chdir (cwd st)]
             @ (if truthy (lastProfileId st)
                then [MarkFailure (the (lastProfileId st)) ''timeout''] else [])"
  using assms
  by (simp add: rotation_recorded_def recordRotationFailure_def Let_def markAuthProfileFailure_def)

lemma timeout_pass:
  assumes mk: "mkdirWorkspace (world env) (attempts_made (trace st)) = None"
    and ses: "agentSession (world env) (attempts_made (trace st)) (lastProfileId st) (thinkLevel st)
                = Completed ws so"
    and tmo: "timedOut (buildAttemptResult env so)"
  shows "loopBody env ctx st =
           rotateExit env ctx (buildAttemptResult env so)
             (advanceAuthProfile env ctx (rotation_recorded env so ws st))"
proof -
  let ?a = "buildAttemptResult env so"
  from timedOut_aborted[OF tmo] have ab: "aborted ?a" .
  from ab have "loopBody env ctx st = completedPath env ctx ?a (after_attempt ws st)"
    by (simp add: loopBody_completed[OF mk ses] split: option.split)
  also have "\<dots> = rotatePath env ctx ?a (after_attempt ws st)"
    by (rule completedPath_timedOut[OF tmo ab])
  finally show ?thesis by (simp add: rotatePath_def rotation_recorded_def)
qed

lemma advanceAuthProfile_resolved:
  assumes "profileIndex st + 1 < length (profileCandidates ctx)"
    and "fst (applyApiKeyInfo env ctx (profileCandidates ctx ! (profileIndex st + 1)) st) = None"
  shows "advanceAuthProfile env ctx st =
           (Inr True, advanced_to ctx (profileIndex st + 1)
                        (snd (applyApiKeyInfo env ctx (profileCandidates ctx ! (profileIndex st + 1)) st)))"
  using assms
  by (simp add: advanceAuthProfile_def advanceFrom.simps[of env ctx "Suc (profileIndex st)" st]
      Let_def advanced_to_def)

lemma advanceAuthProfile_none_left:
  assumes "\<not> profileIndex st + 1 < length (profileCandidates ctx)"
  shows "advanceAuthProfile env ctx st = (Inr False, st)"
  using assms
  by (simp add: advanceAuthProfile_def advanceFrom.simps[of env ctx "Suc (profileIndex st)" st])

lemma advanceAuthProfile_first_call:
  assumes "profileIndex st + 1 < length (profileCandidates ctx)"
  shows "\<exists>rest. trace (snd (advanceAuthProfile env ctx st)) =
           trace st @ [GetApiKey (profileCandidates ctx ! (profileIndex st + 1))] @ rest"
proof -
  obtain r st' where a: "advanceFrom env ctx (profileIndex st + 1) st = (r, st')"
    by (cases "advanceFrom env ctx (profileIndex st + 1) st")
  from a have "\<exists>rest. trace st' =
           trace st @ [GetApiKey (profileCandidates ctx ! (profileIndex st + 1))] @ rest"
  proof (cases rule: advanceFrom_cases)
    case exhausted
    with assms show ?thesis by simp
  next
    case (resolved st1)
    from applyApiKeyInfo_frame(1)[OF resolved(2)] resolved(4) show ?thesis by simp
  next
    case (pinned err)
    from applyApiKeyInfo_frame(1)[OF pinned(2)] show ?thesis by simp
  next
    case (skipped err st1)
    from advanceFrom_frame[OF skipped(3)] obtain cs where "trace st' = trace st1 @ map GetApiKey cs"
      by blast
    with applyApiKeyInfo_frame(1)[OF skipped(2)] show ?thesis by simp
  qed
  with a show ?thesis by (simp add: advanceAuthProfile_def)
qed

lemma rotateExit_extends:
  "\<exists>rest. trace (snd (rotateExit env ctx attempt adv)) = trace (snd adv) @ rest"
proof -
  obtain r st2 where adv: "adv = (r, st2)" by (cases adv)
  show ?thesis unfolding adv
    by (cases r) (auto simp: rotateExit_def finishRun_def Let_def emit_def)
qed

lemma timeout_pass_first_call:
  assumes mk: "mkdirWorkspace (world env) (attempts_made (trace st)) = None"
    and ses: "agentSession (world env) (attempts_made (trace st)) (lastProfileId st) (thinkLevel st)
                = Completed ws so"
    and tmo: "timedOut (buildAttemptResult env so)"
    and nxt: "profileIndex st + 1 < length (profileCandidates ctx)"
  shows "\<exists>rest. trace (snd (loopBody env ctx st)) =
           trace (rotation_recorded env so ws st)
             @ [GetApiKey (profileCandidates ctx ! (profileIndex st + 1))] @ rest"
proof -
  let ?st2 = "rotation_recorded env so ws st"
  from nxt have n2: "profileIndex ?st2 + 1 < length (profileCandidates ctx)" by simp
  from advanceAuthProfile_first_call[OF n2, of env] obtain r1 where
    t1: "trace (snd (advanceAuthProfile env ctx ?st2)) =
           trace ?st2 @ [GetApiKey (profileCandidates ctx ! (profileIndex st + 1))] @ r1" by auto
  from rotateExit_extends[of env ctx "buildAttemptResult env so" "advanceAuthProfile env ctx ?st2"]
  obtain r2 where
    "trace (snd (rotateExit env ctx (buildAttemptResult env so) (advanceAuthProfile env ctx ?st2))) =
       trace (snd (advanceAuthProfile env ctx ?st2)) @ r2" by blast
  with t1 timeout_pass[OF mk ses tmo, of ctx] show ?thesis by simp
qed

lemma timeout_pass_continues:
  assumes mk: "mkdirWorkspace (world env) (attempts_made (trace st)) = None"
    and ses: "agentSession (world env) (attempts_made (trace st)) (lastProfileId st) (thinkLevel st)
                = Completed ws so"
    and tmo: "timedOut (buildAttemptResult env so)"
    and nxt: "profileIndex st + 1 < length (profileCandidates ctx)"
    and res: "fst (applyApiKeyInfo env ctx (profileCandidates ctx ! (profileIndex st + 1))
                     (rotation_recorded env so ws st)) = None"
  shows "loopBody env ctx st =
           (Continue, advanced_to ctx (profileIndex st + 1)
              (snd (applyApiKeyInfo env ctx (profileCandidates ctx ! (profileIndex st + 1))
                      (rotation_recorded env so ws st))))"
proof -
  let ?st2 = "rotation_recorded env so ws st"
  from nxt have n2: "profileIndex ?st2 + 1 < length (profileCandidates ctx)" by simp
  from res have r2: "fst (applyApiKeyInfo env ctx (profileCandidates ctx ! (profileIndex ?st2 + 1)) ?st2) = None"
    by simp
  from advanceAuthProfile_resolved[OF n2 r2] timeout_pass[OF mk ses tmo, of ctx]
  show ?thesis by (simp add: rotateExit_def)
qed

subsection \<open>Concrete passes with a second candidate\<close>

lemma sample_applies_p2:
  "applyApiKeyInfo lone_env two_ctx (Some ''p2'') st =
     (None, (emit (GetApiKey (Some ''p2'')) st)
              \<lparr>apiKeyInfo := Some \<lparr>apiKey = ''key'', profileId = Some ''p2'', source = ''profile''\<rparr>,
                runtimeApiKey := Some (''anthropic'', ''key''),
                lastProfileId := Some ''p2''\<rparr>)"
  by (simp add: applyApiKeyInfo_def lone_env_def sample_defs two_ctx_def sample_ctx_def Let_def)

lemma anonymous_state_session:
  "mkdirWorkspace (world env) (attempts_made (trace anonymous_state)) = mkdirWorkspace (world env) 0"
  "agentSession (world env) (attempts_made (trace anonymous_state)) (lastProfileId anonymous_state)
     (thinkLevel anonymous_state) = agentSession (world env) 0 None Off"
  by (simp_all add: anonymous_state_def attempts_made_def attempt_events_def)

lemma sample_state_simps:
  "attempts_made (trace sample_state) = 0" "lastProfileId sample_state = Some ''p1''"
  "thinkLevel sample_state = Off" "profileIndex sample_state = 0"
  by (simp_all add: sample_state_def attempts_made_def attempt_events_def)

lemma pinned_ctx_simps:
  "profileCandidates pinned_ctx = [Some ''p1'', Some ''p2'']"
  "explicitProfileId pinned_ctx = Some ''p1''"
  "model_provider (model pinned_ctx) = ''anthropic''"
  by (simp_all add: pinned_ctx_def buildCtx_def candidatesOf_def pinned_env_def rotating_env_def
      sample_defs trim_def is_space_def is_space2_def is_space3_def Let_def)

lemma pinned_applies_p2:
  "applyApiKeyInfo pinned_env pinned_ctx (Some ''p2'') st =
     (None, (emit (GetApiKey (Some ''p2'')) st)
              \<lparr>apiKeyInfo := Some \<lparr>apiKey = ''key'', profileId = Some ''p2'', source = ''profile''\<rparr>,
                runtimeApiKey := Some (''anthropic'', ''key''),
                lastProfileId := Some ''p2''\<rparr>)"
  by (simp add: applyApiKeyInfo_def pinned_ctx_simps Let_def pinned_env_def rotating_env_def
      sample_defs)

section \<open>The claims\<close>

text \<open>
  C1 (as amended). Take a pass of the loop whose attempt completes, takes neither the
  prompt-error branch nor a thinking-level downgrade, and asks for rotation (a failover
  error of the assistant on an attempt that was not aborted, or a timeout), and let
  \<^verbatim>\<open>advanceAuthProfile\<close> find no further usable candidate. If a fallback model chain is
  configured, the run ends with the typed failover error, which carries the reason
  classified from the assistant's error message (\<open>unknown\<close> if there is none), the provider,
  the model, the last profile id, and a status code: the one of the reason, else 408 when
  the message is a timeout message. If no fallback chain is configured, the run does not
  raise: it ends with a normal result.
\<close>

theorem exhausted_rotation_outcome:
  assumes mk: "mkdirWorkspace (world env) (attempts_made (trace st)) = None"
    and ses: "agentSession (world env) (attempts_made (trace st)) (lastProfileId st) (thinkLevel st)
                = Completed ws so"
    and np: "promptError (buildAttemptResult env so) = None \<or> aborted (buildAttemptResult env so)"
    and nd: "pickFallbackThinkingLevel (helpers env)
               (Option.bind (lastAssistant (buildAttemptResult env so)) errorMessage)
               (insert (thinkLevel st) (attemptedThinking st)) = None
             \<or> aborted (buildAttemptResult env so)"
    and rot: "(\<not> aborted (buildAttemptResult env so)
                 \<and> isFailoverAssistantError (helpers env) (lastAssistant (buildAttemptResult env so)))
              \<or> timedOut (buildAttemptResult env so)"
    and exh: "advanceAuthProfile env ctx
                (recordRotationFailure env (buildAttemptResult env so) (after_attempt ws st))
              = (Inr False, st2)"
  shows "(fallbacks (params env) \<noteq> [] \<longrightarrow>
            runLoop (Suc fuel) env ctx st =
              Some (Inl (FailoverError (exhaustedFailoverError env ctx (buildAttemptResult env so) st2)), st2)
            \<and> fe_reason (exhaustedFailoverError env ctx (buildAttemptResult env so) st2) =
                (case classifyFailoverReason (helpers env)
                        (case Option.bind (lastAssistant (buildAttemptResult env so)) errorMessage of
                           None \<Rightarrow> [] | Some m \<Rightarrow> m) of
                   None \<Rightarrow> ''unknown'' | Some r \<Rightarrow> r)
            \<and> fe_provider (exhaustedFailoverError env ctx (buildAttemptResult env so) st2) = Some (provider ctx)
            \<and> fe_model (exhaustedFailoverError env ctx (buildAttemptResult env so) st2) = Some (modelId ctx)
            \<and> fe_profileId (exhaustedFailoverError env ctx (buildAttemptResult env so) st2) = lastProfileId st
            \<and> fe_status (exhaustedFailoverError env ctx (buildAttemptResult env so) st2) =
                (case resolveFailoverStatus (helpers env)
                        (fe_reason (exhaustedFailoverError env ctx (buildAttemptResult env so) st2)) of
                   Some code \<Rightarrow> Some code
                 | None \<Rightarrow>
                     if isTimeoutErrorMessage (helpers env)
                          (fe_message (exhaustedFailoverError env ctx (buildAttemptResult env so) st2))
                     then Some 408 else None))
         \<and> (fallbacks (params env) = [] \<longrightarrow>
              (\<exists>res st3. runLoop (Suc fuel) env ctx st = Some (Inr res, st3)
                  \<and> meta_error (meta res) = None))"
proof -
  let ?a = "buildAttemptResult env so"
  let ?st1 = "after_attempt ws st"
  from np have "loopBody env ctx st = completedPath env ctx ?a ?st1"
    by (auto simp: loopBody_completed[OF mk ses] split: option.split)
  also from nd rot have "\<dots> = rotatePath env ctx ?a ?st1"
    by (auto simp: completedPath_def Let_def)
  also from exh have "\<dots> = rotateExit env ctx ?a (Inr False, st2)"
    by (simp add: rotatePath_def)
  finally have body: "loopBody env ctx st = rotateExit env ctx ?a (Inr False, st2)" .
  have keep: "lastProfileId st2 = lastProfileId st"
    using advanceAuthProfile_exit(4)[OF exh] by (simp add: recordRotationFailure_frame)
  have A: "fallbacks (params env) \<noteq> [] \<longrightarrow>
            runLoop (Suc fuel) env ctx st =
              Some (Inl (FailoverError (exhaustedFailoverError env ctx ?a st2)), st2)"
    using body by (simp add: rotateExit_def)
  have B: "fallbacks (params env) = [] \<longrightarrow>
              (\<exists>res st3. runLoop (Suc fuel) env ctx st = Some (Inr res, st3) \<and> meta_error (meta res) = None)"
    using body by (simp add: rotateExit_def finishRun_def Let_def)
  have C: "fe_reason (exhaustedFailoverError env ctx ?a st2) =
                (case classifyFailoverReason (helpers env)
                        (case Option.bind (lastAssistant ?a) errorMessage of
                           None \<Rightarrow> [] | Some m \<Rightarrow> m) of
                   None \<Rightarrow> ''unknown'' | Some r \<Rightarrow> r)"
    "fe_provider (exhaustedFailoverError env ctx ?a st2) = Some (provider ctx)"
    "fe_model (exhaustedFailoverError env ctx ?a st2) = Some (modelId ctx)"
    "fe_profileId (exhaustedFailoverError env ctx ?a st2) = lastProfileId st"
    "fe_status (exhaustedFailoverError env ctx ?a st2) =
                (case resolveFailoverStatus (helpers env)
                        (fe_reason (exhaustedFailoverError env ctx ?a st2)) of
                   Some code \<Rightarrow> Some code
                 | None \<Rightarrow>
                     if isTimeoutErrorMessage (helpers env)
                          (fe_message (exhaustedFailoverError env ctx ?a st2))
                     then Some 408 else None)"
    by (simp_all add: exhaustedFailoverError_def Let_def keep)
  from A B C show ?thesis by blast
qed

theorem exhausted_rotation_outcome_witness:
  "timedOut (buildAttemptResult lone_fallback_env timed_out_session)
   \<and> fallbacks (params lone_fallback_env) \<noteq> []
   \<and> fallbacks (params lone_env) = []
   \<and> (\<exists>fe st2. runLoop (Suc 0) lone_fallback_env sample_ctx sample_state
                    = Some (Inl (FailoverError fe), st2)
         \<and> fe_reason fe = ''unknown'' \<and> fe_provider fe = Some ''anthropic''
         \<and> fe_model fe = Some ''opus'' \<and> fe_profileId fe = Some ''p1'' \<and> fe_status fe = Some 408)
   \<and> (\<exists>res st3. runLoop (Suc 0) lone_env sample_ctx sample_state = Some (Inr res, st3))"
proof -
  let ?a = "buildAttemptResult lone_fallback_env timed_out_session"
  let ?b = "buildAttemptResult lone_env timed_out_session"
  have mk: "mkdirWorkspace (world lone_fallback_env) (attempts_made (trace sample_state)) = None"
    "mkdirWorkspace (world lone_env) (attempts_made (trace sample_state)) = None"
    by (simp_all add: sample_state_session lone_fallback_env_def lone_env_def sample_defs)
  have ses: "agentSession (world lone_fallback_env) (attempts_made (trace sample_state))
               (lastProfileId sample_state) (thinkLevel sample_state) = Completed ''/ws'' timed_out_session"
    "agentSession (world lone_env) (attempts_made (trace sample_state))
               (lastProfileId sample_state) (thinkLevel sample_state) = Completed ''/ws'' timed_out_session"
    by (simp_all add: sample_state_session lone_fallback_env_def lone_env_def sample_defs)
  have tmo: "timedOut ?a" "timedOut ?b"
    by (simp_all add: timed_out_session_def sample_defs attemptFlags_def abortRun_def)
  have ab: "aborted ?a" "aborted ?b"
    by (rule timedOut_aborted[OF tmo(1)], rule timedOut_aborted[OF tmo(2)])
  have fb: "fallbacks (params lone_fallback_env) \<noteq> []" "fallbacks (params lone_env) = []"
    by (simp_all add: lone_fallback_env_def lone_env_def sample_defs)
  note t1 = exhausted_rotation_outcome[OF mk(1) ses(1) disjI2[OF ab(1)] disjI2[OF ab(1)]
      disjI2[OF tmo(1)] lone_exhausted, of 0]
  note t2 = exhausted_rotation_outcome[OF mk(2) ses(2) disjI2[OF ab(2)] disjI2[OF ab(2)]
      disjI2[OF tmo(2)] lone_exhausted, of 0]
  let ?st2 = "recordRotationFailure lone_fallback_env ?a (after_attempt ''/ws'' sample_state)"
  let ?fe = "exhaustedFailoverError lone_fallback_env sample_ctx ?a ?st2"
  from t1 fb(1) have r1: "runLoop (Suc 0) lone_fallback_env sample_ctx sample_state
                    = Some (Inl (FailoverError ?fe), ?st2)" by blast
  have f: "fe_reason ?fe = ''unknown''" "fe_provider ?fe = Some ''anthropic''"
    "fe_model ?fe = Some ''opus''" "fe_profileId ?fe = Some ''p1''" "fe_status ?fe = Some 408"
    by (simp_all add: exhaustedFailoverError_def Let_def recordRotationFailure_frame
        lone_fallback_env_def lone_env_def timed_out_session_def sample_defs sample_ctx_def
        sample_state_def findLastAssistant_def attemptFlags_def abortRun_def or_else_def)
  from t2 fb(2) have r2: "\<exists>res st3. runLoop (Suc 0) lone_env sample_ctx sample_state = Some (Inr res, st3)"
    by blast
  from tmo(1) fb r1 f r2 show ?thesis by blast
qed

text \<open>
  C1 as stated fails: with a single profile, an attempt that times out and no fallback
  chain, rotation is exhausted and the run returns a normal result, after marking the
  profile failed and then good and used.
\<close>

theorem exhausted_rotation_without_fallback_returns:
  "fallbacks (params lone_env) = []
   \<and> returned_normally (runEmbeddedPiAgent 1 lone_env ''/home'')
   \<and> run_trace (runEmbeddedPiAgent 1 lone_env ''/home'') =
       [GetApiKey (Some ''p1''), Mkdir, RunAttempt 0 (Some ''p1'') Off, Chdir ''/ws'', Chdir ''/home'',
        MarkFailure ''p1'' ''timeout'', MarkGood ''anthropic'' ''p1'', MarkUsed ''p1'', Chdir ''/home'']"
  by (simp add: run_defs lone_env_def timed_out_session_def sample_defs advanceFrom.simps
      returned_normally_def run_trace_def)

text \<open>
  C2 (as amended). In a run started with a pinned profile: if the pinned profile heads the
  candidate list and its credential fails to resolve, the run ends at once with that very
  error, no other candidate is asked for a credential and no attempt is made; and a
  completed attempt under the pinned profile that times out rotates all the same: when
  there is a next candidate and its credential resolves, the loop continues under that
  candidate, with the thinking level and the attempted set reset.
\<close>

theorem pinned_credential_failure_propagates:
  assumes pin: "map_option trim (authProfileId (params env)) = Some pid" "pid \<noteq> []"
  shows "(resolveModel (world env) (resolvedProvider env) (resolvedModelId env) = (Some mdl, e)
          \<and> \<not> fst (resolveContextWindowInfo (world env) (resolvedProvider env) (resolvedModelId env)
                      (contextWindow mdl) (DEFAULT_CONTEXT_TOKENS (helpers env)))
                 < CONTEXT_WINDOW_HARD_MIN_TOKENS (helpers env)
          \<and> configuredCandidates env ! 0 = Some pid
          \<and> getApiKeyForModel (world env) (Some pid) = Inl err \<longrightarrow>
            (\<exists>st. runEmbeddedPiAgent fuel env dir = Some (Inl (Rethrown err), st)
               \<and> trace st = [GetApiKey (Some pid)] \<and> cwd st = dir))
         \<and> (profileCandidates (buildCtx env prov mid mdl') ! profileIndex st = Some pid
             \<and> mkdirWorkspace (world env) (attempts_made (trace st)) = None
             \<and> agentSession (world env) (attempts_made (trace st)) (lastProfileId st) (thinkLevel st)
                 = Completed ws so
             \<and> timedOut (buildAttemptResult env so)
             \<and> profileIndex st + 1 < length (profileCandidates (buildCtx env prov mid mdl'))
             \<and> fst (applyApiKeyInfo env (buildCtx env prov mid mdl')
                      (profileCandidates (buildCtx env prov mid mdl') ! (profileIndex st + 1))
                      (rotation_recorded env so ws st)) = None \<longrightarrow>
              explicitProfileId (buildCtx env prov mid mdl') = Some pid
              \<and> loopBody env (buildCtx env prov mid mdl') st =
                  (Continue, advanced_to (buildCtx env prov mid mdl') (profileIndex st + 1)
                     (snd (applyApiKeyInfo env (buildCtx env prov mid mdl')
                             (profileCandidates (buildCtx env prov mid mdl') ! (profileIndex st + 1))
                             (rotation_recorded env so ws st)))))"
proof (intro conjI impI)
  assume h: "resolveModel (world env) (resolvedProvider env) (resolvedModelId env) = (Some mdl, e)
          \<and> \<not> fst (resolveContextWindowInfo (world env) (resolvedProvider env) (resolvedModelId env)
                      (contextWindow mdl) (DEFAULT_CONTEXT_TOKENS (helpers env)))
                 < CONTEXT_WINDOW_HARD_MIN_TOKENS (helpers env)
          \<and> configuredCandidates env ! 0 = Some pid
          \<and> getApiKeyForModel (world env) (Some pid) = Inl err"
  then have rm: "resolveModel (world env) (resolvedProvider env) (resolvedModelId env) = (Some mdl, e)"
    and big: "\<not> fst (resolveContextWindowInfo (world env) (resolvedProvider env) (resolvedModelId env)
                      (contextWindow mdl) (DEFAULT_CONTEXT_TOKENS (helpers env)))
                 < CONTEXT_WINDOW_HARD_MIN_TOKENS (helpers env)"
    and first: "configuredCandidates env ! 0 = Some pid"
    and fail: "getApiKeyForModel (world env) (Some pid) = Inl err"
    by blast+
  let ?order = "resolveAuthProfileOrder (world env) (resolvedProvider env) (Some pid)"
  let ?ctx = "buildCtx env (resolvedProvider env) (resolvedModelId env) mdl"
  from first have c0: "candidatesOf ?order ! 0 = Some pid"
    by (simp add: configuredCandidates_def pin(1))
  then have mem: "pid \<in> set ?order"
    by (cases ?order) (auto simp: candidatesOf_def)
  have ctx: "explicitProfileId ?ctx = Some pid" "profileCandidates ?ctx ! 0 = Some pid"
    using c0 by (simp_all add: buildCtx_def Let_def pin(1))
  have ap: "applyApiKeyInfo env ?ctx (Some pid) (initialState ?ctx dir) =
              (Some err, emit (GetApiKey (Some pid)) (initialState ?ctx dir))"
    using fail by (simp add: applyApiKeyInfo_def Let_def)
  have "runWithModel fuel env (resolvedProvider env) (resolvedModelId env) mdl dir =
          Some (Inl (Rethrown err), emit (GetApiKey (Some pid)) (initialState ?ctx dir))"
    using ctx mem pin(2) ap
    by (simp add: runWithModel_def Let_def truthy_def initialState_def emit_def)
  with rm big have "runEmbeddedPiAgent fuel env dir =
          Some (Inl (Rethrown err), emit (GetApiKey (Some pid)) (initialState ?ctx dir))"
    by (simp add: runEmbeddedPiAgent_def Let_def evaluateContextWindowGuard_def)
  then show "\<exists>st. runEmbeddedPiAgent fuel env dir = Some (Inl (Rethrown err), st)
               \<and> trace st = [GetApiKey (Some pid)] \<and> cwd st = dir"
    by (simp add: initialState_def emit_def)
next
  show "explicitProfileId (buildCtx env prov mid mdl') = Some pid"
    by (simp add: buildCtx_def Let_def pin(1))
next
  let ?ctx = "buildCtx env prov mid mdl'"
  assume h: "profileCandidates ?ctx ! profileIndex st = Some pid
             \<and> mkdirWorkspace (world env) (attempts_made (trace st)) = None
             \<and> agentSession (world env) (attempts_made (trace st)) (lastProfileId st) (thinkLevel st)
                 = Completed ws so
             \<and> timedOut (buildAttemptResult env so)
             \<and> profileIndex st + 1 < length (profileCandidates ?ctx)
             \<and> fst (applyApiKeyInfo env ?ctx (profileCandidates ?ctx ! (profileIndex st + 1))
                      (rotation_recorded env so ws st)) = None"
  then have mk: "mkdirWorkspace (world env) (attempts_made (trace st)) = None"
    and ses: "agentSession (world env) (attempts_made (trace st)) (lastProfileId st) (thinkLevel st)
                 = Completed ws so"
    and tmo: "timedOut (buildAttemptResult env so)"
    and nxt: "profileIndex st + 1 < length (profileCandidates ?ctx)"
    and res: "fst (applyApiKeyInfo env ?ctx (profileCandidates ?ctx ! (profileIndex st + 1))
                      (rotation_recorded env so ws st)) = None"
    by blast+
  show "loopBody env ?ctx st =
                  (Continue, advanced_to ?ctx (profileIndex st + 1)
                     (snd (applyApiKeyInfo env ?ctx (profileCandidates ?ctx ! (profileIndex st + 1))
                             (rotation_recorded env so ws st))))"
    by (rule timeout_pass_continues[OF mk ses tmo nxt res])
qed

theorem pinned_credential_failure_propagates_witness:
  "(\<exists>st. runEmbeddedPiAgent 5 unresolvable_pinned_env ''/home''
              = Some (Inl (Rethrown (JsError ''missing secret'')), st)
         \<and> trace st = [GetApiKey (Some ''p1'')] \<and> cwd st = ''/home'')
   \<and> explicitProfileId pinned_ctx = Some ''p1''
   \<and> (\<exists>st'. loopBody pinned_env pinned_ctx sample_state = (Continue, st')
         \<and> profileIndex st' = 1 \<and> lastProfileId st' = Some ''p2'')"
proof -
  let ?mdl = "\<lparr>model_id = ''opus'', model_provider = ''anthropic'', contextWindow = None\<rparr>"
  have p: "resolvedProvider unresolvable_pinned_env = ''anthropic''"
    "resolvedModelId unresolvable_pinned_env = ''opus''"
    by (simp_all add: resolvedProvider_def resolvedModelId_def unresolvable_pinned_env_def sample_defs
        or_else_def trim_def is_space_def is_space2_def is_space3_def)
  have rm: "resolveModel (world unresolvable_pinned_env) (resolvedProvider unresolvable_pinned_env)
              (resolvedModelId unresolvable_pinned_env) = (Some ?mdl, None)"
    by (simp add: p) (simp add: unresolvable_pinned_env_def sample_defs)
  have big: "\<not> fst (resolveContextWindowInfo (world unresolvable_pinned_env)
                      (resolvedProvider unresolvable_pinned_env) (resolvedModelId unresolvable_pinned_env)
                      (contextWindow ?mdl)
                      (DEFAULT_CONTEXT_TOKENS (helpers unresolvable_pinned_env)))
                 < CONTEXT_WINDOW_HARD_MIN_TOKENS (helpers unresolvable_pinned_env)"
    by (simp add: unresolvable_pinned_env_def sample_defs)
  have pin: "map_option trim (authProfileId (params unresolvable_pinned_env)) = Some ''p1''" "''p1'' \<noteq> []"
    by (simp_all add: unresolvable_pinned_env_def sample_defs trim_def is_space_def is_space2_def
        is_space3_def)
  have first: "configuredCandidates unresolvable_pinned_env ! 0 = Some ''p1''"
    by (simp add: configuredCandidates_def candidatesOf_def unresolvable_pinned_env_def sample_defs)
  have fail: "getApiKeyForModel (world unresolvable_pinned_env) (Some ''p1'') = Inl (JsError ''missing secret'')"
    by (simp add: unresolvable_pinned_env_def sample_defs)
  from pinned_credential_failure_propagates[OF pin, of ?mdl None "JsError ''missing secret''" 5 "''/home''"]
    rm big first fail
  have A: "\<exists>st. runEmbeddedPiAgent 5 unresolvable_pinned_env ''/home''
              = Some (Inl (Rethrown (JsError ''missing secret'')), st)
         \<and> trace st = [GetApiKey (Some ''p1'')] \<and> cwd st = ''/home''"
    by blast
  have pin2: "map_option trim (authProfileId (params pinned_env)) = Some ''p1''"
    by (simp add: pinned_env_def rotating_env_def sample_defs trim_def is_space_def is_space2_def
        is_space3_def)
  let ?so = "sample_session\<lparr>abortCalls := [True]\<rparr>"
  let ?st2 = "rotation_recorded pinned_env ?so ''/ws'' sample_state"
  have cur: "profileCandidates pinned_ctx ! profileIndex sample_state = Some ''p1''"
    by (simp add: pinned_ctx_simps sample_state_def)
  have mk: "mkdirWorkspace (world pinned_env) (attempts_made (trace sample_state)) = None"
    by (simp add: sample_state_simps pinned_env_def rotating_env_def sample_defs)
  have ses: "agentSession (world pinned_env) (attempts_made (trace sample_state))
               (lastProfileId sample_state) (thinkLevel sample_state) = Completed ''/ws'' ?so"
    by (simp add: sample_state_simps pinned_env_def rotating_env_def sample_defs)
  have tmo: "timedOut (buildAttemptResult pinned_env ?so)"
    by (simp add: sample_defs attemptFlags_def abortRun_def)
  have nxt: "profileIndex sample_state + 1 < length (profileCandidates pinned_ctx)"
    by (simp add: pinned_ctx_simps sample_state_def)
  have cand: "profileCandidates pinned_ctx ! (profileIndex sample_state + 1) = Some ''p2''"
    by (simp add: pinned_ctx_simps sample_state_def)
  have res: "fst (applyApiKeyInfo pinned_env pinned_ctx
                    (profileCandidates pinned_ctx ! (profileIndex sample_state + 1)) ?st2) = None"
    by (simp only: cand pinned_applies_p2 fst_conv)
  note t = pinned_credential_failure_propagates[OF pin2 pin(2),
      where prov = "''anthropic''" and mid = "''opus''" and mdl' = ?mdl and st = sample_state
        and ws = "''/ws''" and so = ?so, folded pinned_ctx_def]
  from t cur mk ses tmo nxt res
  have body: "loopBody pinned_env pinned_ctx sample_state =
      (Continue, advanced_to pinned_ctx (profileIndex sample_state + 1)
         (snd (applyApiKeyInfo pinned_env pinned_ctx
                 (profileCandidates pinned_ctx ! (profileIndex sample_state + 1)) ?st2)))"
    and ex: "explicitProfileId pinned_ctx = Some ''p1''"
    by blast+
  let ?st' = "advanced_to pinned_ctx (profileIndex sample_state + 1)
         (snd (applyApiKeyInfo pinned_env pinned_ctx
                 (profileCandidates pinned_ctx ! (profileIndex sample_state + 1)) ?st2))"
  have f: "profileIndex ?st' = 1" "lastProfileId ?st' = Some ''p2''"
    by (simp_all only: cand pinned_applies_p2 snd_conv)
       (simp_all add: advanced_to_def sample_state_def)
  from A ex body f show ?thesis by blast
qed

text \<open>
  C2 as stated fails: with profile \<open>p1\<close> pinned and \<open>p2\<close> configured after it, an attempt
  under \<open>p1\<close> that times out makes the run rotate to \<open>p2\<close>, and the run ends with the
  result of the attempt under \<open>p2\<close>.
\<close>

theorem pinned_run_rotates:
  "authProfileId (params pinned_env) = Some ''p1''
   \<and> returned_normally (runEmbeddedPiAgent 2 pinned_env ''/home'')
   \<and> attempt_events (run_trace (runEmbeddedPiAgent 2 pinned_env ''/home'')) =
       [(0, Some ''p1'', Off), (1, Some ''p2'', Off)]
   \<and> run_trace (runEmbeddedPiAgent 2 pinned_env ''/home'') =
       [GetApiKey (Some ''p1''), Mkdir, RunAttempt 0 (Some ''p1'') Off, Chdir ''/ws'', Chdir ''/home'',
        MarkFailure ''p1'' ''timeout'', GetApiKey (Some ''p2''),
        Mkdir, RunAttempt 1 (Some ''p2'') Off, Chdir ''/ws'', Chdir ''/home'',
        MarkGood ''anthropic'' ''p2'', MarkUsed ''p2'', Chdir ''/home'']"
  by (simp add: run_defs pinned_env_def rotating_env_def sample_defs advanceFrom.simps
      returned_normally_def run_trace_def numeral_2_eq_2)

text \<open>
  C3. A run whose resolved context window is below the hard minimum ends with the typed
  failover error (reason unknown, with provider and model) before the retry loop starts:
  whatever number of passes the loop would be allowed, the trace of the run is empty, so
  the attempt executor and the credential store are never called, and the working
  directory is untouched.
\<close>

theorem context_guard_blocks_before_loop:
  assumes "resolveModel (world env) (resolvedProvider env) (resolvedModelId env) = (Some mdl, err)"
    and "fst (resolveContextWindowInfo (world env) (resolvedProvider env) (resolvedModelId env)
                (contextWindow mdl) (DEFAULT_CONTEXT_TOKENS (helpers env)))
           < CONTEXT_WINDOW_HARD_MIN_TOKENS (helpers env)"
  shows "\<exists>fe st. runEmbeddedPiAgent fuel env dir = Some (Inl (FailoverError fe), st)
           \<and> fe_reason fe = ''unknown''
           \<and> fe_provider fe = Some (resolvedProvider env)
           \<and> fe_model fe = Some (resolvedModelId env)
           \<and> trace st = [] \<and> attempts_made (trace st) = 0 \<and> cwd st = dir"
  using assms
  by (simp add: runEmbeddedPiAgent_def evaluateContextWindowGuard_def untouched_def
      attempts_made_def attempt_events_def Let_def)

theorem context_guard_blocks_before_loop_witness:
  "resolveModel (world small_window_env) (resolvedProvider small_window_env)
       (resolvedModelId small_window_env)
     = (Some \<lparr>model_id = ''opus'', model_provider = ''anthropic'', contextWindow = None\<rparr>, None)
   \<and> fst (resolveContextWindowInfo (world small_window_env) (resolvedProvider small_window_env)
            (resolvedModelId small_window_env) None (DEFAULT_CONTEXT_TOKENS (helpers small_window_env)))
       = 500
   \<and> CONTEXT_WINDOW_HARD_MIN_TOKENS (helpers small_window_env) = 1000
   \<and> (\<exists>fe st. runEmbeddedPiAgent 0 small_window_env ''/home'' = Some (Inl (FailoverError fe), st)
         \<and> fe_reason fe = ''unknown'' \<and> trace st = [] \<and> attempts_made (trace st) = 0 \<and> cwd st = ''/home'')"
proof -
  have m: "resolveModel (world small_window_env) (resolvedProvider small_window_env)
             (resolvedModelId small_window_env)
           = (Some \<lparr>model_id = ''opus'', model_provider = ''anthropic'', contextWindow = None\<rparr>, None)"
    by (simp add: small_window_env_def sample_defs resolvedProvider_def resolvedModelId_def
        or_else_def trim_def is_space_def is_space2_def is_space3_def)
  have t: "fst (resolveContextWindowInfo (world small_window_env) (resolvedProvider small_window_env)
            (resolvedModelId small_window_env)
            (contextWindow \<lparr>model_id = ''opus'', model_provider = ''anthropic'', contextWindow = None\<rparr>)
            (DEFAULT_CONTEXT_TOKENS (helpers small_window_env)))
       < CONTEXT_WINDOW_HARD_MIN_TOKENS (helpers small_window_env)"
    by (simp add: small_window_env_def sample_defs)
  have t500: "fst (resolveContextWindowInfo (world small_window_env) (resolvedProvider small_window_env)
            (resolvedModelId small_window_env) None (DEFAULT_CONTEXT_TOKENS (helpers small_window_env)))
       = 500"
    by (simp add: small_window_env_def sample_defs)
  have hm: "CONTEXT_WINDOW_HARD_MIN_TOKENS (helpers small_window_env) = 1000"
    by (simp add: small_window_env_def sample_defs)
  have c: "\<exists>fe st. runEmbeddedPiAgent 0 small_window_env ''/home'' = Some (Inl (FailoverError fe), st)
         \<and> fe_reason fe = ''unknown'' \<and> trace st = [] \<and> attempts_made (trace st) = 0 \<and> cwd st = ''/home''"
    using context_guard_blocks_before_loop[OF m t, of 0 "''/home''"] by blast
  from m t500 hm c show ?thesis by blast
qed

text \<open>
  C4 (as amended). When a completed attempt reports \<open>timedOut\<close>, whatever the
  classification of the error text and whatever the aborted flag (which is always set
  when \<open>timedOut\<close> is), the pass goes to the rotation branch. It records a failure with
  reason \<open>timeout\<close> against the profile in use if there is a non-empty profile id, and
  records nothing if there is none. It then attempts rotation: if there is a next
  candidate, the next call is the request for that candidate's credential, and when that
  credential resolves the loop continues under the next candidate with the thinking level
  and the attempted set reset; if there is no next candidate, \<^verbatim>\<open>advanceAuthProfile\<close>
  reports that none is left and changes nothing.
\<close>

theorem timeout_records_failure_and_rotates:
  assumes mk: "mkdirWorkspace (world env) (attempts_made (trace st)) = None"
    and ses: "agentSession (world env) (attempts_made (trace st)) (lastProfileId st) (thinkLevel st)
                = Completed ws so"
    and tmo: "timedOut (buildAttemptResult env so)"
  shows "loopBody env ctx st =
           rotateExit env ctx (buildAttemptResult env so)
             (advanceAuthProfile env ctx (rotation_recorded env so ws st))
         \<and> trace (rotation_recorded env so ws st) =
             trace st @ [Mkdir, RunAttempt (profileIndex st) (lastProfileId st) (thinkLevel st),
                         Chdir ws, Chdir (cwd st)]
               @ (if truthy (lastProfileId st)
                  then [MarkFailure (the (lastProfileId st)) ''timeout''] else [])
         \<and> (profileIndex st + 1 < length (profileCandidates ctx) \<longrightarrow>
               (\<exists>rest. trace (snd (loopBody env ctx st)) =
                  trace (rotation_recorded env so ws st)
                    @ [GetApiKey (profileCandidates ctx ! (profileIndex st + 1))] @ rest))
         \<and> (profileIndex st + 1 < length (profileCandidates ctx)
              \<and> fst (applyApiKeyInfo env ctx (profileCandidates ctx ! (profileIndex st + 1))
                        (rotation_recorded env so ws st)) = None \<longrightarrow>
               loopBody env ctx st =
                 (Continue, advanced_to ctx (profileIndex st + 1)
                    (snd (applyApiKeyInfo env ctx (profileCandidates ctx ! (profileIndex st + 1))
                            (rotation_recorded env so ws st)))))
         \<and> (\<not> profileIndex st + 1 < length (profileCandidates ctx) \<longrightarrow>
               advanceAuthProfile env ctx (rotation_recorded env so ws st)
                 = (Inr False, rotation_recorded env so ws st))"
proof (intro conjI impI)
  show "loopBody env ctx st =
           rotateExit env ctx (buildAttemptResult env so)
             (advanceAuthProfile env ctx (rotation_recorded env so ws st))"
    by (rule timeout_pass[OF mk ses tmo])
  show "trace (rotation_recorded env so ws st) =
             trace st @ [Mkdir, RunAttempt (profileIndex st) (lastProfileId st) (thinkLevel st),
                         Chdir ws, Chdir (cwd st)]
               @ (if truthy (lastProfileId st)
                  then [MarkFailure (the (lastProfileId st)) ''timeout''] else [])"
    by (rule rotation_recorded_timeout_trace[OF tmo])
  show "\<exists>rest. trace (snd (loopBody env ctx st)) =
                  trace (rotation_recorded env so ws st)
                    @ [GetApiKey (profileCandidates ctx ! (profileIndex st + 1))] @ rest"
    if "profileIndex st + 1 < length (profileCandidates ctx)"
    by (rule timeout_pass_first_call[OF mk ses tmo that])
  show "loopBody env ctx st =
                 (Continue, advanced_to ctx (profileIndex st + 1)
                    (snd (applyApiKeyInfo env ctx (profileCandidates ctx ! (profileIndex st + 1))
                            (rotation_recorded env so ws st))))"
    if "profileIndex st + 1 < length (profileCandidates ctx)
              \<and> fst (applyApiKeyInfo env ctx (profileCandidates ctx ! (profileIndex st + 1))
                        (rotation_recorded env so ws st)) = None"
    using that timeout_pass_continues[OF mk ses tmo] by blast
  show "advanceAuthProfile env ctx (rotation_recorded env so ws st)
                 = (Inr False, rotation_recorded env so ws st)"
    if "\<not> profileIndex st + 1 < length (profileCandidates ctx)"
    using that by (intro advanceAuthProfile_none_left) simp
qed

theorem timeout_records_failure_and_rotates_witness:
  "timedOut (buildAttemptResult lone_env timed_out_session)
   \<and> (\<exists>st'. loopBody lone_env two_ctx sample_state = (Continue, st')
         \<and> profileIndex st' = 1 \<and> lastProfileId st' = Some ''p2'' \<and> attemptedThinking st' = {}
         \<and> trace st' =
             [GetApiKey (Some ''p1''), Mkdir, RunAttempt 0 (Some ''p1'') Off,
              Chdir ''/ws'', Chdir ''/home'', MarkFailure ''p1'' ''timeout'', GetApiKey (Some ''p2'')])
   \<and> trace (rotation_recorded anonymous_env timed_out_session ''/ws'' anonymous_state) =
       [GetApiKey None, Mkdir, RunAttempt 0 None Off, Chdir ''/ws'', Chdir ''/home'']
   \<and> advanceAuthProfile anonymous_env sample_ctx
         (rotation_recorded anonymous_env timed_out_session ''/ws'' anonymous_state)
       = (Inr False, rotation_recorded anonymous_env timed_out_session ''/ws'' anonymous_state)"
proof -
  have mk: "mkdirWorkspace (world lone_env) (attempts_made (trace sample_state)) = None"
    by (simp add: sample_state_session lone_env_def sample_defs)
  have ses: "agentSession (world lone_env) (attempts_made (trace sample_state))
               (lastProfileId sample_state) (thinkLevel sample_state) = Completed ''/ws'' timed_out_session"
    by (simp add: sample_state_session lone_env_def sample_defs)
  have tmo: "timedOut (buildAttemptResult lone_env timed_out_session)"
    by (simp add: timed_out_session_def sample_defs attemptFlags_def abortRun_def)
  note t = timeout_records_failure_and_rotates[OF mk ses tmo, of two_ctx]
  let ?st2 = "rotation_recorded lone_env timed_out_session ''/ws'' sample_state"
  have idx: "profileIndex sample_state + 1 < length (profileCandidates two_ctx)"
    "profileCandidates two_ctx ! (profileIndex sample_state + 1) = Some ''p2''"
    by (simp_all add: sample_state_def two_ctx_def sample_ctx_def)
  have res: "fst (applyApiKeyInfo lone_env two_ctx (profileCandidates two_ctx ! (profileIndex sample_state + 1)) ?st2)
               = None"
    by (simp only: idx(2) sample_applies_p2 fst_conv)
  from t idx(1) res have body: "loopBody lone_env two_ctx sample_state =
      (Continue, advanced_to two_ctx (profileIndex sample_state + 1)
         (snd (applyApiKeyInfo lone_env two_ctx (profileCandidates two_ctx ! (profileIndex sample_state + 1)) ?st2)))"
    by blast
  from t have tr2: "trace ?st2 =
      trace sample_state @ [Mkdir, RunAttempt (profileIndex sample_state) (lastProfileId sample_state)
                                     (thinkLevel sample_state),
                            Chdir ''/ws'', Chdir (cwd sample_state)]
        @ (if truthy (lastProfileId sample_state)
           then [MarkFailure (the (lastProfileId sample_state)) ''timeout''] else [])"
    by blast
  let ?st' = "advanced_to two_ctx (profileIndex sample_state + 1)
         (snd (applyApiKeyInfo lone_env two_ctx (profileCandidates two_ctx ! (profileIndex sample_state + 1)) ?st2))"
  have f: "profileIndex ?st' = 1" "lastProfileId ?st' = Some ''p2''" "attemptedThinking ?st' = {}"
    by (simp_all only: idx(2) sample_applies_p2 snd_conv)
       (simp_all add: advanced_to_def sample_state_def)
  have tr2c: "trace ?st2 =
             [GetApiKey (Some ''p1''), Mkdir, RunAttempt 0 (Some ''p1'') Off,
              Chdir ''/ws'', Chdir ''/home'', MarkFailure ''p1'' ''timeout'']"
    unfolding tr2 by (simp add: sample_state_def truthy_def)
  have tr': "trace ?st' =
             [GetApiKey (Some ''p1''), Mkdir, RunAttempt 0 (Some ''p1'') Off,
              Chdir ''/ws'', Chdir ''/home'', MarkFailure ''p1'' ''timeout'', GetApiKey (Some ''p2'')]"
    by (simp only: idx(2) sample_applies_p2 snd_conv)
       (simp add: advanced_to_def tr2c)
  have A: "\<exists>st'. loopBody lone_env two_ctx sample_state = (Continue, st')
         \<and> profileIndex st' = 1 \<and> lastProfileId st' = Some ''p2'' \<and> attemptedThinking st' = {}
         \<and> trace st' =
             [GetApiKey (Some ''p1''), Mkdir, RunAttempt 0 (Some ''p1'') Off,
              Chdir ''/ws'', Chdir ''/home'', MarkFailure ''p1'' ''timeout'', GetApiKey (Some ''p2'')]"
    using body f tr' by blast
  have mk2: "mkdirWorkspace (world anonymous_env) (attempts_made (trace anonymous_state)) = None"
    by (simp add: anonymous_state_session anonymous_env_def sample_defs)
  have ses2: "agentSession (world anonymous_env) (attempts_made (trace anonymous_state))
               (lastProfileId anonymous_state) (thinkLevel anonymous_state) = Completed ''/ws'' timed_out_session"
    by (simp add: anonymous_state_session anonymous_env_def sample_defs)
  have tmo2: "timedOut (buildAttemptResult anonymous_env timed_out_session)"
    by (simp add: timed_out_session_def sample_defs attemptFlags_def abortRun_def)
  note u = timeout_records_failure_and_rotates[OF mk2 ses2 tmo2, of sample_ctx]
  have last: "\<not> profileIndex anonymous_state + 1 < length (profileCandidates sample_ctx)"
    by (simp add: anonymous_state_def sample_ctx_def)
  from u have "trace (rotation_recorded anonymous_env timed_out_session ''/ws'' anonymous_state) =
      trace anonymous_state @ [Mkdir, RunAttempt (profileIndex anonymous_state) (lastProfileId anonymous_state)
                                        (thinkLevel anonymous_state),
                               Chdir ''/ws'', Chdir (cwd anonymous_state)]
        @ (if truthy (lastProfileId anonymous_state)
           then [MarkFailure (the (lastProfileId anonymous_state)) ''timeout''] else [])"
    by blast
  then have B: "trace (rotation_recorded anonymous_env timed_out_session ''/ws'' anonymous_state) =
       [GetApiKey None, Mkdir, RunAttempt 0 None Off, Chdir ''/ws'', Chdir ''/home'']"
    by (simp add: anonymous_state_def truthy_def)
  from u last have C: "advanceAuthProfile anonymous_env sample_ctx
         (rotation_recorded anonymous_env timed_out_session ''/ws'' anonymous_state)
       = (Inr False, rotation_recorded anonymous_env timed_out_session ''/ws'' anonymous_state)"
    by blast
  from tmo A B C show ?thesis by blast
qed

text \<open>
  C4 as stated fails: when no profile is configured and the credential in use has no
  profile id, a timed-out attempt records nothing in the credential store.
\<close>

theorem timeout_without_profile_records_nothing:
  "returned_normally (runEmbeddedPiAgent 1 anonymous_env ''/home'')
   \<and> run_trace (runEmbeddedPiAgent 1 anonymous_env ''/home'') =
       [GetApiKey None, Mkdir, RunAttempt 0 None Off, Chdir ''/ws'', Chdir ''/home'', Chdir ''/home'']"
  by (simp add: run_defs anonymous_env_def timed_out_session_def sample_defs advanceFrom.simps
      returned_normally_def run_trace_def)




text \<open>
  C6. When an attempt ends aborted and not timed out, the run returns a normal result
  with \<open>aborted\<close> set in its meta data. After the attempt the trace holds at most the two
  calls that mark the profile good and used: no failure is recorded, no credential is
  asked for, and no further attempt is made.
\<close>

theorem external_abort_ends_run:
  assumes mk: "mkdirWorkspace (world env) (attempts_made (trace st)) = None"
    and ses: "agentSession (world env) (attempts_made (trace st)) (lastProfileId st) (thinkLevel st)
                = Completed ws so"
    and ab: "aborted (buildAttemptResult env so)"
    and nt: "\<not> timedOut (buildAttemptResult env so)"
  shows "\<exists>res st'. runLoop (Suc fuel) env ctx st = Some (Inr res, st')
           \<and> meta_aborted (meta res) = Some True
           \<and> trace st' =
               trace st @ [Mkdir, RunAttempt (profileIndex st) (lastProfileId st) (thinkLevel st),
                           Chdir ws, Chdir (cwd st)]
                 @ (if truthy (lastProfileId st)
                    then [MarkGood (provider ctx) (the (lastProfileId st)),
                          MarkUsed (the (lastProfileId st))]
                    else [])"
proof -
  let ?a = "buildAttemptResult env so"
  let ?st1 = "after_attempt ws st"
  from ab have "loopBody env ctx st = completedPath env ctx ?a ?st1"
    by (simp add: loopBody_completed[OF mk ses] split: option.split)
  also from ab nt have "\<dots> = finishRun env ctx ?a ?st1"
    by (simp add: completedPath_def Let_def)
  finally have body: "loopBody env ctx st = finishRun env ctx ?a ?st1" .
  obtain x st' where f: "finishRun env ctx ?a ?st1 = (x, st')" by (cases "finishRun env ctx ?a ?st1")
  from finishRun_trace[OF f] ab obtain res where
    "x = Return res" "meta_aborted (meta res) = Some True"
    "trace st' = trace ?st1 @ (if truthy (lastProfileId ?st1)
                                then [MarkGood (provider ctx) (the (lastProfileId ?st1)),
                                      MarkUsed (the (lastProfileId ?st1))]
                                else [])"
    by auto
  with body f show ?thesis by simp
qed

theorem external_abort_ends_run_witness:
  "aborted (buildAttemptResult aborted_env (sample_session\<lparr>abortCalls := [False]\<rparr>))
   \<and> \<not> timedOut (buildAttemptResult aborted_env (sample_session\<lparr>abortCalls := [False]\<rparr>))
   \<and> (\<exists>res st'. runLoop (Suc 0) aborted_env sample_ctx sample_state = Some (Inr res, st')
         \<and> meta_aborted (meta res) = Some True
         \<and> trace st' = [GetApiKey (Some ''p1''), Mkdir, RunAttempt 0 (Some ''p1'') Off,
                         Chdir ''/ws'', Chdir ''/home'',
                         MarkGood ''anthropic'' ''p1'', MarkUsed ''p1''])"
proof -
  let ?so = "sample_session\<lparr>abortCalls := [False]\<rparr>"
  have mk: "mkdirWorkspace (world aborted_env) (attempts_made (trace sample_state)) = None"
    by (simp add: sample_state_session aborted_env_def sample_defs)
  have ses: "agentSession (world aborted_env) (attempts_made (trace sample_state))
               (lastProfileId sample_state) (thinkLevel sample_state) = Completed ''/ws'' ?so"
    by (simp add: sample_state_session aborted_env_def sample_defs)
  have ab: "aborted (buildAttemptResult aborted_env ?so)"
    by (simp add: sample_defs attemptFlags_def abortRun_def)
  have nt: "\<not> timedOut (buildAttemptResult aborted_env ?so)"
    by (simp add: sample_defs attemptFlags_def abortRun_def)
  from external_abort_ends_run[OF mk ses ab nt, of 0 sample_ctx]
  obtain res st' where r: "runLoop (Suc 0) aborted_env sample_ctx sample_state = Some (Inr res, st')"
    and a: "meta_aborted (meta res) = Some True"
    and t: "trace st' =
              trace sample_state @
                [Mkdir, RunAttempt (profileIndex sample_state) (lastProfileId sample_state)
                          (thinkLevel sample_state),
                 Chdir ''/ws'', Chdir (cwd sample_state)]
                @ (if truthy (lastProfileId sample_state)
                   then [MarkGood (provider sample_ctx) (the (lastProfileId sample_state)),
                         MarkUsed (the (lastProfileId sample_state))]
                   else [])"
    by blast
  from t have t': "trace st' = [GetApiKey (Some ''p1''), Mkdir, RunAttempt 0 (Some ''p1'') Off,
                         Chdir ''/ws'', Chdir ''/home'',
                         MarkGood ''anthropic'' ''p1'', MarkUsed ''p1'']"
    by (simp add: sample_state_def sample_ctx_def truthy_def)
  from ab nt r a t' show ?thesis by blast
qed

text \<open>
  C7. In every run, pinned or not, the candidate indices of the successive attempts never
  decrease, so a candidate that the run has rotated away from is never used again; every
  index lies within the configured candidate list, and the profile id in use during an
  attempt is the one the credential store resolved for that candidate.
\<close>

theorem candidates_traversed_in_order:
  "runEmbeddedPiAgent fuel env dir = Some (res, st) \<longrightarrow>
     sorted (map fst (attempt_events (trace st)))
     \<and> distinct (remdups_adj (map fst (attempt_events (trace st))))
     \<and> (\<forall>e \<in> set (attempt_events (trace st)).
           fst e < length (configuredCandidates env)
           \<and> (case getApiKeyForModel (world env) (configuredCandidates env ! fst e) of
                Inl err \<Rightarrow> False
              | Inr info \<Rightarrow> fst (snd e) = profileId info))"
proof
  assume "runEmbeddedPiAgent fuel env dir = Some (res, st)"
  then have "sorted (map fst (attempt_events (trace st)))
     \<and> (\<forall>e \<in> set (attempt_events (trace st)).
           fst e < length (configuredCandidates env)
           \<and> (case getApiKeyForModel (world env) (configuredCandidates env ! fst e) of
                Inl err \<Rightarrow> False
              | Inr info \<Rightarrow> fst (snd e) = profileId info))"
  proof (cases rule: run_cases)
    case (early err st0)
    then show ?thesis by simp
  next
    case (loop mdl st1)
    let ?ctx = "buildCtx env (resolvedProvider env) (resolvedModelId env) mdl"
    from loop(1)[symmetric] obtain st2 where l: "runLoop fuel env ?ctx st1 = Some (res, st2)"
      and st: "st = chdir dir st2"
      by (auto simp: guardedLoop_Some)
    from loop(2) have "traversal_inv env ?ctx st1"
      by (simp add: loop_entry_def traversal_inv_def)
    from runLoop_traversal[OF this l] st show ?thesis
      by (simp add: cred_ok_def)
  qed
  then show "sorted (map fst (attempt_events (trace st)))
     \<and> distinct (remdups_adj (map fst (attempt_events (trace st))))
     \<and> (\<forall>e \<in> set (attempt_events (trace st)).
           fst e < length (configuredCandidates env)
           \<and> (case getApiKeyForModel (world env) (configuredCandidates env ! fst e) of
                Inl err \<Rightarrow> False
              | Inr info \<Rightarrow> fst (snd e) = profileId info))"
    using sorted_distinct_remdups_adj by blast
qed

theorem candidates_traversed_in_order_witness:
  "\<exists>res st. runEmbeddedPiAgent 2 rotating_env ''/home'' = Some (res, st)
      \<and> attempt_events (trace st) = [(0, Some ''p1'', Off), (1, Some ''p2'', Off)]
      \<and> sorted (map fst (attempt_events (trace st)))
      \<and> distinct (remdups_adj (map fst (attempt_events (trace st))))"
proof -
  from rotating_run obtain res st where
    r: "runEmbeddedPiAgent 2 rotating_env ''/home'' = Some (res, st)"
      "attempt_events (trace st) = [(0, Some ''p1'', Off), (1, Some ''p2'', Off)]" by blast
  with candidates_traversed_in_order[of 2 rotating_env "''/home''" res st] show ?thesis by blast
qed

text \<open>
  C8. Provided the thinking-level fallback only ever picks a level that is not in the
  attempted set, every run ends: allowed at least (number of candidates) times (length of
  the ladder) passes, the loop returns a result or an error, having made at most that many
  attempts, and no two attempts of the run share both the candidate index and the thinking
  level.
\<close>

theorem retry_loop_bounded:
  assumes "\<forall>m att l. pickFallbackThinkingLevel (helpers env) m att = Some l \<longrightarrow> l \<notin> att"
    and "length (configuredCandidates env) * length ladder \<le> fuel"
  shows "\<exists>res st. runEmbeddedPiAgent fuel env dir = Some (res, st)
           \<and> attempts_made (trace st) \<le> length (configuredCandidates env) * length ladder
           \<and> distinct (attempt_keys (trace st))"
proof -
  obtain out where out: "runEmbeddedPiAgent fuel env dir = out" by simp
  then show ?thesis
  proof (cases rule: run_cases)
    case (early err st0)
    with out show ?thesis by (simp add: attempts_made_def attempt_keys_def)
  next
    case (loop mdl st1)
    let ?ctx = "buildCtx env (resolvedProvider env) (resolvedModelId env) mdl"
    from loop(2) have inv: "ladder_inv ?ctx st1" and ev: "attempts_made (trace st1) = 0"
      and rem: "remaining ?ctx st1 \<le> length (configuredCandidates env) * length ladder"
      by (simp_all add: loop_entry_def ladder_inv_def cred_ok_def attempt_keys_def attempts_made_def
          remaining_def)
    from rem assms(2) have "remaining ?ctx st1 \<le> fuel" by simp
    from runLoop_terminates[OF assms(1) inv this] obtain res st' where
      r: "runLoop fuel env ?ctx st1 = Some (res, st')" "distinct (attempt_keys (trace st'))"
         "attempts_made (trace st') \<le> attempts_made (trace st1) + remaining ?ctx st1" by blast
    from r(1) loop(1) out have "runEmbeddedPiAgent fuel env dir = Some (res, chdir dir st')"
      by (simp add: guardedLoop_def)
    moreover from r(2) have "distinct (attempt_keys (trace (chdir dir st')))"
      by (simp add: chdir_def attempt_keys_def)
    moreover from r(3) ev rem
    have "attempts_made (trace (chdir dir st')) \<le> length (configuredCandidates env) * length ladder"
      by (simp add: chdir_def attempts_made_def)
    ultimately show ?thesis by blast
  qed
qed

theorem retry_loop_bounded_witness:
  "length (configuredCandidates sample_env) * length ladder = 12
   \<and> (\<exists>res st. runEmbeddedPiAgent 12 sample_env ''/home'' = Some (res, st)
          \<and> attempts_made (trace st) \<le> 12 \<and> distinct (attempt_keys (trace st)))"
proof -
  have fresh: "\<forall>m att l. pickFallbackThinkingLevel (helpers sample_env) m att = Some l \<longrightarrow> l \<notin> att"
    by (auto simp: sample_defs dest: specPickFallbackThinkingLevel_fresh)
  have n: "length (configuredCandidates sample_env) * length ladder = 12"
    by (simp add: configuredCandidates_def candidatesOf_def sample_defs ladder_def)
  from retry_loop_bounded[OF fresh, of 12 "''/home''"] n show ?thesis by simp
qed

text \<open>
  C9. The working directory of the process is the same after an attempt as before it,
  whichever way the attempt ends (a throw before the change of directory, a throw inside
  the attempt, or a return, aborted or not); it is therefore unchanged by any number of
  passes of the retry loop; and when the run ends, with a result or with an error, it is
  the directory the run started in. The model runs one task at a time: interleavings of
  concurrent runs are outside it.
\<close>

theorem working_directory_restored:
  "cwd (snd (runEmbeddedAttempt env st)) = cwd st
   \<and> (runLoop fuel env ctx st = Some (res, st') \<longrightarrow> cwd st' = cwd st)
   \<and> (runEmbeddedPiAgent fuel env dir = Some (res, st') \<longrightarrow> cwd st' = dir)"
proof (intro conjI)
  show "cwd (snd (runEmbeddedAttempt env st)) = cwd st"
    by (rule runEmbeddedAttempt_exit(1)[of env st "fst (runEmbeddedAttempt env st)"]) simp
  show "runLoop fuel env ctx st = Some (res, st') \<longrightarrow> cwd st' = cwd st"
    using runLoop_cwd by blast
  show "runEmbeddedPiAgent fuel env dir = Some (res, st') \<longrightarrow> cwd st' = dir"
  proof
    assume "runEmbeddedPiAgent fuel env dir = Some (res, st')"
    then show "cwd st' = dir"
    proof (cases rule: run_cases)
      case (early err st)
      then show ?thesis by simp
    next
      case (loop mdl st1)
      from loop(1)[symmetric] show ?thesis by (auto simp: guardedLoop_Some)
    qed
  qed
qed

theorem working_directory_restored_witness:
  "\<exists>res st'. runEmbeddedPiAgent 1 sample_env ''/home'' = Some (Inr res, st') \<and> cwd st' = ''/home''"
proof -
  from sample_run_returns obtain res st' where
    r: "runEmbeddedPiAgent 1 sample_env ''/home'' = Some (Inr res, st')" by blast
  with working_directory_restored[of sample_env _ 1 _ "Inr res" st' "''/home''"] show ?thesis by blast
qed

text \<open>
  C10 (as amended). Every run that returns a result without an error tag while a
  non-empty profile id is in use has marked that profile good and then used, as its last
  two calls to the credential store, whether or not the final attempt was aborted.
\<close>

theorem completed_run_marks_profile:
  assumes "runEmbeddedPiAgent fuel env dir = Some (Inr res, st)"
    and "meta_error (meta res) = None"
    and "lastProfileId st = Some pid" and "pid \<noteq> []"
  shows "\<exists>tr. trace st = tr @ [MarkGood (resolvedProvider env) pid, MarkUsed pid, Chdir dir]"
  using assms(1)
proof (cases rule: run_cases)
  case (early err st0)
  then show ?thesis by simp
next
  case (loop mdl st1)
  let ?ctx = "buildCtx env (resolvedProvider env) (resolvedModelId env) mdl"
  from loop(1)[symmetric] obtain st2 where l: "runLoop fuel env ?ctx st1 = Some (Inr res, st2)"
    and st: "st = chdir dir st2"
    by (auto simp: guardedLoop_Some)
  from st assms(3,4) have p: "lastProfileId st2 = Some pid" "truthy (lastProfileId st2)"
    by (simp_all add: chdir_def emit_def truthy_def)
  from runLoop_return[OF l assms(2) p(2)] p(1) st show ?thesis by auto
qed

theorem completed_run_marks_profile_witness:
  "\<exists>res st tr. runEmbeddedPiAgent 1 aborted_env ''/home'' = Some (Inr res, st)
      \<and> meta_error (meta res) = None \<and> meta_aborted (meta res) = Some True
      \<and> lastProfileId st = Some ''p1''
      \<and> trace st = tr @ [MarkGood (resolvedProvider aborted_env) ''p1'', MarkUsed ''p1'', Chdir ''/home'']"
proof -
  from aborted_run obtain res st where
    r: "runEmbeddedPiAgent 1 aborted_env ''/home'' = Some (Inr res, st)"
       "meta_error (meta res) = None" "meta_aborted (meta res) = Some True"
       "lastProfileId st = Some ''p1''" by blast
  from completed_run_marks_profile[OF r(1,2,4)] r show ?thesis by auto
qed

text \<open>
  C10 as stated fails: the soft-error result for a context overflow is a normal result
  under a resolved profile id, and the run that returns it never marks the profile.
\<close>

theorem soft_error_leaves_profile_unmarked:
  "returned_normally (runEmbeddedPiAgent 1 overflow_env ''/home'')
   \<and> map_option (lastProfileId \<circ> snd) (runEmbeddedPiAgent 1 overflow_env ''/home'') = Some (Some ''p1'')
   \<and> run_trace (runEmbeddedPiAgent 1 overflow_env ''/home'') =
       [GetApiKey (Some ''p1''), Mkdir, RunAttempt 0 (Some ''p1'') Off,
        Chdir ''/ws'', Chdir ''/home'', Chdir ''/home'']"
  by (simp add: run_defs overflow_env_def sample_defs advanceFrom.simps returned_normally_def
      run_trace_def)

end
